theory Spec2Isabelle
  imports Main
begin

section \<open>JavaScript values\<close>

text \<open>
  The transformers work on parsed JSON. A JSON object is an association list in insertion
  order (the order \<^verbatim>\<open>Object.entries\<close> walks it); numbers are copied through
  unchanged by every function below, so an integer stands for them.
\<close>

datatype json =
    JNull
  | JBool bool
  | JNum int
  | JStr string
  | JArr "json list"
  | JObj "(string \<times> json) list"

text \<open>What a \<^verbatim>\<open>throw\<close> carries.\<close>

datatype js_error = TypeError | SyntaxError | Error string

text \<open>Truthiness, as \<^verbatim>\<open>!x\<close>, \<^verbatim>\<open>x && y\<close> and \<^verbatim>\<open>x || y\<close> test it.\<close>

fun truthy :: "json \<Rightarrow> bool" where
  "truthy JNull = False"
| "truthy (JBool b) = b"
| "truthy (JNum n) = (n \<noteq> 0)"
| "truthy (JStr s) = (s \<noteq> [])"
| "truthy (JArr _) = True"
| "truthy (JObj _) = True"

definition truthyStr :: "string option \<Rightarrow> bool" where
  "truthyStr s = (case s of None \<Rightarrow> False | Some t \<Rightarrow> t \<noteq> [])"

definition truthyJson :: "json option \<Rightarrow> bool" where
  "truthyJson j = (case j of None \<Rightarrow> False | Some v \<Rightarrow> truthy v)"

definition truthyInt :: "int option \<Rightarrow> bool" where
  "truthyInt n = (case n of None \<Rightarrow> False | Some k \<Rightarrow> k \<noteq> 0)"

text \<open>\<^verbatim>\<open>s || d\<close> on an optional string, \<^verbatim>\<open>n || 0\<close> on an optional count.\<close>

definition strOr :: "string option \<Rightarrow> string \<Rightarrow> string" where
  "strOr s d = (case s of None \<Rightarrow> d | Some t \<Rightarrow> if t = [] then d else t)"

definition numOrZero :: "nat option \<Rightarrow> nat" where
  "numOrZero n = (case n of None \<Rightarrow> 0 | Some k \<Rightarrow> k)"

text \<open>\<^verbatim>\<open>typeof v === 'object'\<close>: true of null, arrays and objects.\<close>

fun typeofObject :: "json \<Rightarrow> bool" where
  "typeofObject JNull = True"
| "typeofObject (JArr _) = True"
| "typeofObject (JObj _) = True"
| "typeofObject _ = False"

text \<open>\<^verbatim>\<open>Array.isArray(v) && v.length === 0\<close>.\<close>

fun isEmptyArray :: "json \<Rightarrow> bool" where
  "isEmptyArray (JArr xs) = (xs = [])"
| "isEmptyArray _ = False"

text \<open>\<^verbatim>\<open>Object.keys(v).length\<close>; \<^verbatim>\<open>Object.keys(null)\<close> throws a TypeError.\<close>

fun objectKeysLength :: "json \<Rightarrow> js_error + nat" where
  "objectKeysLength JNull = Inl TypeError"
| "objectKeysLength (JBool _) = Inr 0"
| "objectKeysLength (JNum _) = Inr 0"
| "objectKeysLength (JStr s) = Inr (length s)"
| "objectKeysLength (JArr xs) = Inr (length xs)"
| "objectKeysLength (JObj kvs) = Inr (length kvs)"

text \<open>\<^verbatim>\<open>String.prototype.toLowerCase\<close> on ASCII letters (other characters are kept).\<close>

fun toLowerChar :: "char \<Rightarrow> char" where
  "toLowerChar (Char b0 b1 b2 b3 b4 b5 b6 b7) =
     (let n = (of_char (Char b0 b1 b2 b3 b4 b5 b6 b7) :: nat)
      in if 65 \<le> n \<and> n \<le> 90 then Char b0 b1 b2 b3 b4 True b6 b7
         else Char b0 b1 b2 b3 b4 b5 b6 b7)"

definition toLowerCase :: "string \<Rightarrow> string" where
  "toLowerCase s = map toLowerChar s"

text \<open>\<^verbatim>\<open>s.includes(sub)\<close> and \<^verbatim>\<open>s.startsWith(p)\<close>.\<close>

definition startsWith :: "string \<Rightarrow> string \<Rightarrow> bool" where
  "startsWith s p = (take (length p) s = p)"

fun str_includes :: "string \<Rightarrow> string \<Rightarrow> bool" where
  "str_includes [] sub = (sub = [])"
| "str_includes (c # cs) sub = (startsWith (c # cs) sub \<or> str_includes cs sub)"

text \<open>\<^verbatim>\<open>s.split(sep)\<close> for a one-character separator: never the empty list.\<close>

fun split :: "char \<Rightarrow> string \<Rightarrow> string list" where
  "split sep [] = [[]]"
| "split sep (c # cs) =
     (if c = sep then [] # split sep cs
      else (case split sep cs of
              [] \<Rightarrow> [[c]]
            | w # ws \<Rightarrow> (c # w) # ws))"

text \<open>\<^verbatim>\<open>xs.join(sep)\<close>.\<close>

fun join :: "string \<Rightarrow> string list \<Rightarrow> string" where
  "join sep [] = []"
| "join sep [x] = x"
| "join sep (x # y # ys) = x @ sep @ join sep (y # ys)"

section \<open>Schema sanitizer: \<^verbatim>\<open>cleanParameters\<close>\<close>

definition unsupportedKeys :: "string list" where
  "unsupportedKeys =
     [''$schema'', ''$id'', ''$ref'', ''$defs'', ''definitions'', ''$comment'', ''examples'',
      ''default'', ''additionalProperties'',
      ''minimum'', ''maximum'', ''minLength'', ''maxLength'',
      ''minItems'', ''maxItems'', ''uniqueItems'',
      ''pattern'', ''format'', ''nullable'', ''oneOf'',
      ''anyOf'', ''allOf'', ''not'']"

text \<open>
  \<^verbatim>\<open>cleaned.k\<close> read for its truthiness: the property of \<^verbatim>\<open>cleaned\<close> itself when it
  has one, otherwise what its prototype gives (\<open>inherited\<close>). \<^verbatim>\<open>delete cleaned.k\<close>
  removes the property of \<^verbatim>\<open>cleaned\<close> itself.
\<close>

definition truthyField :: "string \<Rightarrow> (string \<times> json) list \<Rightarrow> bool \<Rightarrow> bool" where
  "truthyField k own inherited =
     (case map_of own k of None \<Rightarrow> inherited | Some v \<Rightarrow> truthy v)"

definition deleteKey :: "string \<Rightarrow> (string \<times> json) list \<Rightarrow> (string \<times> json) list" where
  "deleteKey k kvs = filter (\<lambda>kv. fst kv \<noteq> k) kvs"

text \<open>
  The statement after the loop:
  \<^verbatim>\<open>if (cleaned.required && !cleaned.properties) delete cleaned.required\<close>.
\<close>

definition dropDanglingRequired ::
  "bool \<Rightarrow> bool \<Rightarrow> (string \<times> json) list \<Rightarrow> (string \<times> json) list" where
  "dropDanglingRequired inheritedRequired inheritedProperties cleaned =
     (if truthyField ''required'' cleaned inheritedRequired
         \<and> \<not> truthyField ''properties'' cleaned inheritedProperties
      then deleteKey ''required'' cleaned else cleaned)"

text \<open>
  The assignment \<^verbatim>\<open>cleaned[key] = ...\<close> with the key \<^verbatim>\<open>__proto__\<close> creates no
  property: it makes the assigned value the prototype of \<^verbatim>\<open>cleaned\<close> when that value is
  an object, an array or \<^verbatim>\<open>null\<close>, and does nothing otherwise. \<open>protoOf\<close> is the entry
  value whose cleaned form ends up as the prototype (the last one assigned), \<open>None\<close> when
  the prototype is still \<^verbatim>\<open>Object.prototype\<close>.
\<close>

fun protoOf :: "(string \<times> json) list \<Rightarrow> json option" where
  "protoOf [] = None"
| "protoOf ((key, value) # rest) =
     (case protoOf rest of
        Some p \<Rightarrow> Some p
      | None \<Rightarrow> if key = ''__proto__'' \<and> typeofObject value then Some value else None)"

text \<open>
  \<^verbatim>\<open>cleanParameters\<close> returns a non-object unchanged, maps itself over an array, and
  rebuilds an object entry by entry (\<open>cleanEntries\<close> is the \<^verbatim>\<open>for\<close> loop, the tests
  in the order of the source). The emptiness of \<^verbatim>\<open>properties\<close> is tested on the value
  as it arrives; the emptiness of \<^verbatim>\<open>items\<close> is tested after cleaning it. The result
  lists the properties of the returned object itself, which is what \<^verbatim>\<open>Object.keys\<close>,
  \<^verbatim>\<open>Object.entries\<close> and \<^verbatim>\<open>JSON.stringify\<close> see of it. \<open>inheritedField k kvs\<close> is
  the truthiness of \<^verbatim>\<open>cleaned.k\<close> as the prototype of \<^verbatim>\<open>cleaned\<close> gives it, for the
  object \<^verbatim>\<open>cleaned\<close> built from the entries \<open>kvs\<close>: an array, \<^verbatim>\<open>null\<close> and
  \<^verbatim>\<open>Object.prototype\<close> have no such field, and a cleaned object is read in turn, its
  own properties first.
\<close>

function cleanParameters :: "json \<Rightarrow> js_error + json"
and cleanArray :: "json list \<Rightarrow> js_error + json list"
and cleanEntries :: "(string \<times> json) list \<Rightarrow> js_error + (string \<times> json) list"
and inheritedField :: "string \<Rightarrow> (string \<times> json) list \<Rightarrow> bool"
where
  "cleanParameters (JObj kvs) =
     (case cleanEntries kvs of
        Inl e \<Rightarrow> Inl e
      | Inr cleaned \<Rightarrow>
          Inr (JObj (dropDanglingRequired (inheritedField ''required'' kvs)
                       (inheritedField ''properties'' kvs) cleaned)))"
| "cleanParameters (JArr xs) =
     (case cleanArray xs of Inl e \<Rightarrow> Inl e | Inr ys \<Rightarrow> Inr (JArr ys))"
| "cleanParameters JNull = Inr JNull"
| "cleanParameters (JBool b) = Inr (JBool b)"
| "cleanParameters (JNum n) = Inr (JNum n)"
| "cleanParameters (JStr s) = Inr (JStr s)"
| "cleanArray [] = Inr []"
| "cleanArray (x # xs) =
     (case cleanParameters x of
        Inl e \<Rightarrow> Inl e
      | Inr y \<Rightarrow> (case cleanArray xs of Inl e \<Rightarrow> Inl e | Inr ys \<Rightarrow> Inr (y # ys)))"
| "cleanEntries [] = Inr []"
| "cleanEntries ((key, value) # rest) =
     (if key \<in> set unsupportedKeys then cleanEntries rest
      else if key = ''required'' \<and> isEmptyArray value then cleanEntries rest
      else if key = ''properties'' \<and> typeofObject value
              \<and> objectKeysLength value = Inl TypeError then Inl TypeError
      else if key = ''properties'' \<and> typeofObject value
              \<and> objectKeysLength value = Inr 0 then cleanEntries rest
      else if key = ''items'' \<and> typeofObject value then
        (case cleanParameters value of
           Inl e \<Rightarrow> Inl e
         | Inr cleanedItems \<Rightarrow>
             (case objectKeysLength cleanedItems of
                Inl e \<Rightarrow> Inl e
              | Inr n \<Rightarrow>
                  (case cleanEntries rest of
                     Inl e \<Rightarrow> Inl e
                   | Inr cleaned \<Rightarrow>
                       Inr ((key, if n = 0 then JObj [(''type'', JStr ''string'')]
                                  else cleanedItems) # cleaned))))
      else
        (case cleanParameters value of
           Inl e \<Rightarrow> Inl e
         | Inr v \<Rightarrow>
             (case cleanEntries rest of
                Inl e \<Rightarrow> Inl e
              | Inr cleaned \<Rightarrow>
                  Inr (if key = ''__proto__'' then cleaned else (key, v) # cleaned))))"
| "inheritedField k kvs =
     (case protoOf kvs of
        Some (JObj p) \<Rightarrow>
          (case cleanParameters (JObj p) of
             Inr (JObj own) \<Rightarrow> truthyField k own (inheritedField k p)
           | _ \<Rightarrow> False)
      | _ \<Rightarrow> False)"
  by pat_completeness auto

termination
proof -
  have smaller: "size_list (size_prod (\<lambda>k. 0) size) p
                 < size_list (size_prod (\<lambda>k. 0) size) kvs"
    if "protoOf kvs = Some (JObj p)" for kvs p
    using that by (induction kvs) (auto split: option.splits if_splits)
  show ?thesis
    by (relation "measure (\<lambda>a. case a of
          Inl (Inl x) \<Rightarrow> 2 * size x + 1
        | Inl (Inr xs) \<Rightarrow> 2 * size_list size xs + 1
        | Inr (Inl kvs) \<Rightarrow> 2 * size_list (size_prod (\<lambda>k. 0) size) kvs + 1
        | Inr (Inr (k, kvs)) \<Rightarrow> 2 * size_list (size_prod (\<lambda>k. 0) size) kvs + 2)")
      (auto dest: smaller)
qed

declare inheritedField.simps [simp del]

text \<open>
  Every key of a JSON value, at every depth (\<open>supportedOnly\<close>: none of them is on the
  deny-list), and every value stored under a given key.
\<close>

fun allKeys :: "json \<Rightarrow> string list"
and allKeysArray :: "json list \<Rightarrow> string list"
and allKeysEntries :: "(string \<times> json) list \<Rightarrow> string list"
where
  "allKeys (JObj kvs) = allKeysEntries kvs"
| "allKeys (JArr xs) = allKeysArray xs"
| "allKeys JNull = []"
| "allKeys (JBool b) = []"
| "allKeys (JNum n) = []"
| "allKeys (JStr s) = []"
| "allKeysArray [] = []"
| "allKeysArray (x # xs) = allKeys x @ allKeysArray xs"
| "allKeysEntries [] = []"
| "allKeysEntries ((k, v) # rest) = k # allKeys v @ allKeysEntries rest"

definition supportedOnly :: "string list \<Rightarrow> bool" where
  "supportedOnly ks = list_all (\<lambda>k. k \<notin> set unsupportedKeys) ks"

fun valuesAt :: "string \<Rightarrow> json \<Rightarrow> json list"
and valuesAtArray :: "string \<Rightarrow> json list \<Rightarrow> json list"
and valuesAtEntries :: "string \<Rightarrow> (string \<times> json) list \<Rightarrow> json list"
where
  "valuesAt key (JObj kvs) = valuesAtEntries key kvs"
| "valuesAt key (JArr xs) = valuesAtArray key xs"
| "valuesAt key JNull = []"
| "valuesAt key (JBool b) = []"
| "valuesAt key (JNum n) = []"
| "valuesAt key (JStr s) = []"
| "valuesAtArray key [] = []"
| "valuesAtArray key (x # xs) = valuesAt key x @ valuesAtArray key xs"
| "valuesAtEntries key [] = []"
| "valuesAtEntries key ((k, v) # rest) =
     (if k = key then [v] else []) @ valuesAt key v @ valuesAtEntries key rest"

section \<open>Request transformer: tool declarations\<close>

record tool_function =
  tf_name :: "string option"
  tf_description :: "string option"
  tf_parameters :: "json option"

record tool =
  tool_type :: "string option"
  tool_name :: "string option"
  tool_description :: "string option"
  tool_input_schema :: "json option"
  tool_parameters :: "json option"
  tool_function :: "tool_function option"

record function_declaration =
  fd_name :: "string option"
  fd_description :: string
  fd_parameters :: json

definition emptyParams :: json where
  "emptyParams = JObj [(''type'', JStr ''object''), (''properties'', JObj [])]"

text \<open>
  \<^verbatim>\<open>(cleanedParams && Object.keys(cleanedParams).length > 0) ? cleanedParams : emptyParams\<close>;
  a truthy value is not null, so \<^verbatim>\<open>Object.keys\<close> does not throw here.
\<close>

definition parametersOrEmpty :: "json option \<Rightarrow> json" where
  "parametersOrEmpty cleanedParams =
     (case cleanedParams of
        None \<Rightarrow> emptyParams
      | Some c \<Rightarrow>
          if truthy c \<and> (case objectKeysLength c of Inr n \<Rightarrow> 0 < n | Inl _ \<Rightarrow> False)
          then c else emptyParams)"

text \<open>\<^verbatim>\<open>cleanParameters\<close> on a field that may be absent: \<^verbatim>\<open>undefined\<close> is returned as it is.\<close>

definition cleanOptional :: "json option \<Rightarrow> js_error + json option" where
  "cleanOptional schema =
     (case schema of
        None \<Rightarrow> Inr None
      | Some s \<Rightarrow> (case cleanParameters s of Inl e \<Rightarrow> Inl e | Inr c \<Rightarrow> Inr (Some c)))"

definition makeDeclaration ::
  "string option \<Rightarrow> string option \<Rightarrow> json option \<Rightarrow> js_error + function_declaration option" where
  "makeDeclaration name description schema =
     (case cleanOptional schema of
        Inl e \<Rightarrow> Inl e
      | Inr cleanedParams \<Rightarrow>
          Inr (Some \<lparr>fd_name = name, fd_description = strOr description [],
                     fd_parameters = parametersOrEmpty cleanedParams\<rparr>))"

text \<open>
  The body of the loop over \<^verbatim>\<open>request.tools\<close>, after the web-search test: the four tool
  shapes in the order of the source; \<open>None\<close> is the tool that is skipped with a warning.
\<close>

definition declareTool :: "tool \<Rightarrow> js_error + function_declaration option" where
  "declareTool t =
     (if truthyStr (tool_name t) \<and> truthyJson (tool_input_schema t) then
        makeDeclaration (tool_name t) (tool_description t) (tool_input_schema t)
      else if truthyStr (tool_name t) \<and> truthyJson (tool_parameters t) then
        makeDeclaration (tool_name t) (tool_description t) (tool_parameters t)
      else (case tool_function t of
              Some func \<Rightarrow> makeDeclaration (tf_name func) (tf_description func) (tf_parameters func)
            | None \<Rightarrow>
                if truthyStr (tool_name t) then
                  Inr (Some \<lparr>fd_name = tool_name t, fd_description = strOr (tool_description t) [],
                             fd_parameters = emptyParams\<rparr>)
                else Inr None))"

fun functionDeclarations :: "tool list \<Rightarrow> js_error + function_declaration list" where
  "functionDeclarations [] = Inr []"
| "functionDeclarations (t # ts) =
     (if tool_type t = Some ''web_search_20250305'' then functionDeclarations ts
      else (case declareTool t of
              Inl e \<Rightarrow> Inl e
            | Inr d \<Rightarrow>
                (case functionDeclarations ts of
                   Inl e \<Rightarrow> Inl e
                 | Inr ds \<Rightarrow> Inr (case d of None \<Rightarrow> ds | Some x \<Rightarrow> x # ds))))"

text \<open>
  \<^verbatim>\<open>tools\<close> of the envelope: \<open>None\<close> when it is omitted, otherwise the declarations of its
  single \<^verbatim>\<open>{functionDeclarations: [...]}\<close> entry.
\<close>

definition buildTools :: "tool list option \<Rightarrow> js_error + function_declaration list option" where
  "buildTools tools =
     (case tools of
        None \<Rightarrow> Inr None
      | Some ts \<Rightarrow>
          if ts = [] then Inr None
          else (case functionDeclarations ts of
                  Inl e \<Rightarrow> Inl e
                | Inr ds \<Rightarrow> Inr (if ds = [] then None else Some ds)))"

text \<open>The type names the upstream accepts.\<close>

definition upstreamTypes :: "json list" where
  "upstreamTypes =
     [JStr ''OBJECT'', JStr ''STRING'', JStr ''ARRAY'', JStr ''BOOLEAN'', JStr ''NUMBER'',
      JStr ''INTEGER'']"

section \<open>Model router\<close>

record request_body =
  body_tools :: "tool list option"
  body_model :: "string option"
  body_thinking :: bool
  body_isWebSearch :: bool
  body_originalModel :: "string option"

text \<open>
  \<^verbatim>\<open>router\<close> returns the \<^verbatim>\<open>"provider,model"\<close> string and leaves its marks on the
  request body (\<^verbatim>\<open>__isWebSearch\<close>, \<^verbatim>\<open>originalModel\<close>).
\<close>

definition router :: "request_body \<Rightarrow> string \<times> request_body" where
  "router body =
     (let tools = (case body_tools body of None \<Rightarrow> [] | Some ts \<Rightarrow> ts);
          hasWebSearch = list_ex (\<lambda>t. tool_type t = Some ''web_search_20250305'') tools
      in if hasWebSearch then
           (''antigravity-websearch,gemini-2.5-flash'', body\<lparr>body_isWebSearch := True\<rparr>)
         else
           (let originalModel = strOr (body_model body) [];
                modelLower = toLowerCase originalModel;
                antigravityModel =
                  (if str_includes modelLower ''opus'' then ''claude-opus-4-5-thinking''
                   else if str_includes modelLower ''haiku'' then ''gemini3-pro-high''
                   else if str_includes modelLower ''sonnet'' then ''claude-sonnet-4-5-thinking''
                   else if body_thinking body then ''claude-opus-4-5-thinking''
                   else ''claude-sonnet-4-5-thinking'')
            in (''antigravity,'' @ antigravityModel,
                body\<lparr>body_originalModel := Some originalModel\<rparr>)))"

section \<open>Token managers\<close>

text \<open>
  The credentials file: one JSON object that all transformers share. The Antigravity
  transformers keep the expiry of the access token in \<^verbatim>\<open>token_expiry\<close>, the Gemini
  interceptors in \<^verbatim>\<open>expiry_date\<close>. \<open>None\<close> for the whole file is what
  \<^verbatim>\<open>readCredentials\<close> and \<^verbatim>\<open>loadCredentials\<close> return when the file is missing or
  unreadable.
\<close>

record credentials =
  client_id :: string
  client_secret :: string
  refresh_token :: "string option"
  access_token :: "string option"
  token_expiry :: "int option"
  expiry_date :: "int option"

text \<open>What the token endpoint answers to a refresh POST.\<close>

record token_response =
  tr_access_token :: "string option"
  tr_expires_in :: int
  tr_error :: "string option"
  tr_error_description :: "string option"

datatype refresh_reply =
    RequestError string
  | UnparsableReply
  | JsonReply token_response

text \<open>
  How far \<^verbatim>\<open>getFreshAccessToken\<close> runs before it first gives up control: it throws,
  it returns (\<open>None\<close> is \<^verbatim>\<open>null\<close>), or it has sent the refresh POST for the
  credentials object it holds and awaits the answer.
\<close>

datatype token_step =
    Throw string
  | Return "string option"
  | RefreshPost credentials

definition expiryThreshold :: int where
  "expiryThreshold = 5 * 60 * 1000"

subsection \<open>Antigravity transformer\<close>

text \<open>
  The stored access token is used while
  \<^verbatim>\<open>credentials.access_token && credentials.token_expiry && (credentials.token_expiry - now) > expiryThreshold\<close>.
\<close>

definition storedTokenFresh :: "credentials \<Rightarrow> int \<Rightarrow> bool" where
  "storedTokenFresh credentials now =
     (truthyStr (access_token credentials) \<and> truthyInt (token_expiry credentials)
      \<and> (case token_expiry credentials of
            None \<Rightarrow> False
          | Some expiry \<Rightarrow> expiry - now > expiryThreshold))"

definition noCredentialsMessage :: string where
  "noCredentialsMessage =
     ''[antigravity] No Google credentials found. Please authenticate via ''
     @ ''the web UI at http://localhost:3456/google-auth''"

definition noRefreshTokenMessage :: string where
  "noRefreshTokenMessage =
     ''[antigravity] No refresh token found. Please re-authenticate via ''
     @ ''the web UI at http://localhost:3456/google-auth''"

definition getFreshAccessToken :: "credentials option \<Rightarrow> int \<Rightarrow> token_step" where
  "getFreshAccessToken stored now =
     (case stored of
        None \<Rightarrow> Throw noCredentialsMessage
      | Some credentials \<Rightarrow>
          if \<not> truthyStr (refresh_token credentials) then Throw noRefreshTokenMessage
          else if storedTokenFresh credentials now then Return (access_token credentials)
          else RefreshPost credentials)"

text \<open>
  The \<^verbatim>\<open>end\<close> handler of \<^verbatim>\<open>refreshAccessToken\<close>: how the promise settles and, on
  success, the credentials object written back to the file. Times are whole milliseconds
  and lifetimes whole seconds; the source computes with them as doubles, which agrees with
  the integer arithmetic here as long as the values stay below \<^verbatim>\<open>2^53\<close> in magnitude
  (a time in milliseconds does for the next 285000 years).
\<close>

definition refreshSettled ::
  "credentials \<Rightarrow> int \<Rightarrow> refresh_reply \<Rightarrow> (js_error + string) \<times> credentials option" where
  "refreshSettled credentials now reply =
     (case reply of
        RequestError m \<Rightarrow> (Inl (Error m), None)
      | UnparsableReply \<Rightarrow> (Inl SyntaxError, None)
      | JsonReply response \<Rightarrow>
          (case tr_access_token response of
             None \<Rightarrow>
               (Inl (Error (strOr (tr_error_description response) ''Failed to refresh token'')),
                None)
           | Some token \<Rightarrow>
               if token = [] then
                 (Inl (Error (strOr (tr_error_description response) ''Failed to refresh token'')),
                  None)
               else
                 (Inr token,
                  Some (credentials\<lparr>access_token := Some token,
                          token_expiry := Some (now + tr_expires_in response * 1000)\<rparr>))))"

text \<open>
  Several requests share one token manager. JavaScript runs each invocation without
  interruption up to its first \<^verbatim>\<open>await\<close>, so a run of the manager is a sequence of
  events: an invocation at some time (which may send a refresh POST), or the answer to one
  of the POSTs in flight (which may rewrite the credentials file). \<open>inFlight\<close> lists the
  POSTs sent and not yet answered, each with the credentials object of its caller.
\<close>

record manager_state =
  credentialsFile :: "credentials option"
  inFlight :: "credentials list"

datatype manager_event =
    Invoke int
  | Answer nat int refresh_reply

fun manager_step :: "manager_state \<Rightarrow> manager_event \<Rightarrow> manager_state" where
  "manager_step s (Invoke now) =
     (case getFreshAccessToken (credentialsFile s) now of
        RefreshPost credentials \<Rightarrow> s\<lparr>inFlight := inFlight s @ [credentials]\<rparr>
      | Throw m \<Rightarrow> s
      | Return t \<Rightarrow> s)"
| "manager_step s (Answer i now reply) =
     (if i < length (inFlight s) then
        (case snd (refreshSettled (inFlight s ! i) now reply) of
           None \<Rightarrow> s\<lparr>inFlight := take i (inFlight s) @ drop (Suc i) (inFlight s)\<rparr>
         | Some saved \<Rightarrow>
             s\<lparr>inFlight := take i (inFlight s) @ drop (Suc i) (inFlight s),
               credentialsFile := Some saved\<rparr>)
      else s)"


subsection \<open>Gemini interceptor, pure API\<close>

record token_cache =
  cachedAccessToken :: "string option"
  tokenExpiryTime :: int

definition cacheFresh :: "token_cache \<Rightarrow> int \<Rightarrow> bool" where
  "cacheFresh cache now =
     (truthyStr (cachedAccessToken cache) \<and> tokenExpiryTime cache > now + 5 * 60 * 1000)"

definition getFreshAccessToken_api ::
  "token_cache \<Rightarrow> credentials option \<Rightarrow> int \<Rightarrow> token_step" where
  "getFreshAccessToken_api cache stored now =
     (if cacheFresh cache now then Return (cachedAccessToken cache)
      else (case stored of
              None \<Rightarrow> Return None
            | Some credentials \<Rightarrow>
                if \<not> truthyStr (refresh_token credentials) then Return None
                else RefreshPost credentials))"





subsection \<open>Gemini interceptor, with the Google auth library\<close>

text \<open>
  This variant may also start the interactive login (\<^verbatim>\<open>runLoginFlow\<close>: terminal prompts,
  a browser window, a local callback server) before it first gives up control.
\<close>

datatype lib_token_step =
    RunLoginFlow
  | NoLogin token_step

definition getFreshAccessToken_lib ::
  "token_cache \<Rightarrow> credentials option \<Rightarrow> int \<Rightarrow> lib_token_step" where
  "getFreshAccessToken_lib cache stored now =
     (if cacheFresh cache now then NoLogin (Return (cachedAccessToken cache))
      else (case stored of
              None \<Rightarrow> RunLoginFlow
            | Some credentials \<Rightarrow>
                if \<not> truthyStr (refresh_token credentials) then RunLoginFlow
                else NoLogin (RefreshPost credentials)))"

section \<open>Request transformer: contents\<close>

record call_function =
  cf_name :: "string option"
  cf_arguments :: "string option"

record tool_call =
  tc_id :: "string option"
  tc_function :: "call_function option"

text \<open>
  One entry of a content array; \<open>ci_url\<close> is \<^verbatim>\<open>content.image_url.url\<close>, absent when
  the entry has no \<^verbatim>\<open>image_url\<close>.
\<close>

record content_item =
  ci_type :: string
  ci_text :: "string option"
  ci_url :: "string option"
  ci_media_type :: "string option"

datatype message_content =
    ContentString string
  | ContentArray "content_item list"
  | ContentUndefined

text \<open>\<open>msg_signature\<close> is \<^verbatim>\<open>message.thinking?.signature\<close>.\<close>

record message =
  msg_role :: string
  msg_content :: message_content
  msg_signature :: "string option"
  msg_tool_calls :: "tool_call list option"
  msg_tool_call_id :: "string option"

text \<open>
  An id that is either the one received or a fresh one: the given prefix followed by
  random or clock-derived characters (\<^verbatim>\<open>Math.random\<close>, \<^verbatim>\<open>Date.now\<close>).
\<close>

datatype generated_id =
    Given string
  | Generated string

definition idOr :: "string option \<Rightarrow> string \<Rightarrow> generated_id" where
  "idOr received prefix =
     (case received of
        None \<Rightarrow> Generated prefix
      | Some i \<Rightarrow> if i = [] then Generated prefix else Given i)"

record function_call =
  fc_id :: generated_id
  fc_name :: "string option"
  fc_args :: json

record function_response =
  fr_id :: "string option"
  fr_name :: "string option"
  fr_output :: message_content

text \<open>
  A part of an upstream content. The optional string of a text or functionCall part is its
  \<^verbatim>\<open>thoughtSignature\<close>; that of the two image parts is the \<^verbatim>\<open>mime_type\<close>.
\<close>

datatype part =
    TextPart string "string option"
  | FileData "string option" string
  | InlineData "string option" string
  | FunctionCall function_call "string option"
  | FunctionResponse function_response

record content =
  content_role :: string
  content_parts :: "part list"

text \<open>The signature attached to a part: only a truthy one is.\<close>

definition signatureOf :: "message \<Rightarrow> string option" where
  "signatureOf m = (if truthyStr (msg_signature m) then msg_signature m else None)"

text \<open>\<^verbatim>\<open>url.split(',').pop() || url\<close>.\<close>

definition inlinePayload :: "string \<Rightarrow> string" where
  "inlinePayload url = (let t = last (split (CHR '','') url) in if t = [] then url else t)"

fun itemParts :: "content_item list \<Rightarrow> js_error + part list" where
  "itemParts [] = Inr []"
| "itemParts (c # cs) =
     (if ci_type c = ''text'' \<and> truthyStr (ci_text c) then
        (case itemParts cs of
           Inl e \<Rightarrow> Inl e
         | Inr ps \<Rightarrow> Inr (TextPart (strOr (ci_text c) []) None # ps))
      else if ci_type c = ''image_url'' then
        (case ci_url c of
           None \<Rightarrow> Inl TypeError
         | Some url \<Rightarrow>
             (case itemParts cs of
                Inl e \<Rightarrow> Inl e
              | Inr ps \<Rightarrow>
                  Inr ((if startsWith url ''http'' then FileData (ci_media_type c) url
                        else InlineData (ci_media_type c) (inlinePayload url)) # ps)))
      else itemParts cs)"

definition contentParts :: "message \<Rightarrow> js_error + part list" where
  "contentParts m =
     (case msg_content m of
        ContentString s \<Rightarrow> Inr (if s = [] then [] else [TextPart s (signatureOf m)])
      | ContentArray items \<Rightarrow> itemParts items
      | ContentUndefined \<Rightarrow> Inr [])"

text \<open>
  The loop over \<^verbatim>\<open>message.tool_calls\<close>, \<open>i\<close> its index. \<open>parse\<close> is
  \<^verbatim>\<open>JSON.parse\<close> (\<open>None\<close> when it throws); reading \<^verbatim>\<open>toolCall.function.name\<close> of a
  call without \<^verbatim>\<open>function\<close> throws a TypeError.
\<close>

fun toolCallParts ::
  "(string \<Rightarrow> json option) \<Rightarrow> string option \<Rightarrow> nat \<Rightarrow> tool_call list \<Rightarrow> js_error + part list"
where
  "toolCallParts parse sig i [] = Inr []"
| "toolCallParts parse sig i (toolCall # rest) =
     (case tc_function toolCall of
        None \<Rightarrow> Inl TypeError
      | Some f \<Rightarrow>
          (case parse (strOr (cf_arguments f) ''{}'') of
             None \<Rightarrow> Inl SyntaxError
           | Some args \<Rightarrow>
               (case toolCallParts parse sig (Suc i) rest of
                  Inl e \<Rightarrow> Inl e
                | Inr ps \<Rightarrow>
                    Inr (FunctionCall
                           \<lparr>fc_id = idOr (tc_id toolCall) ''tool_'', fc_name = cf_name f,
                            fc_args = args\<rparr>
                           (if i = 0 then sig else None) # ps))))"

text \<open>
  The functionResponse of one tool call: the first tool-role message whose
  \<^verbatim>\<open>tool_call_id\<close> is the call's \<^verbatim>\<open>id\<close> gives the output, \<^verbatim>\<open>undefined\<close> when there
  is none.
\<close>

definition functionResponse :: "message list \<Rightarrow> tool_call \<Rightarrow> part" where
  "functionResponse toolResponses t =
     FunctionResponse
       \<lparr>fr_id = tc_id t,
        fr_name = (case tc_function t of None \<Rightarrow> None | Some f \<Rightarrow> cf_name f),
        fr_output =
          (case find (\<lambda>item. msg_tool_call_id item = tc_id t) toolResponses of
             None \<Rightarrow> ContentUndefined
           | Some r \<Rightarrow> msg_content r)\<rparr>"

text \<open>
  What one message that is not a tool message adds to \<^verbatim>\<open>contents\<close>: nothing for a
  system message; otherwise its own content when it has parts, then, after a model message
  with tool calls, the user content of their functionResponses.
\<close>

definition messageContents ::
  "(string \<Rightarrow> json option) \<Rightarrow> message list \<Rightarrow> message \<Rightarrow> js_error + content list" where
  "messageContents parse toolResponses m =
     (if msg_role m = ''system'' then Inr []
      else
        (let role = (if msg_role m = ''assistant'' then ''model'' else ''user'')
         in case contentParts m of
              Inl e \<Rightarrow> Inl e
            | Inr textParts \<Rightarrow>
                (case (case msg_tool_calls m of
                         None \<Rightarrow> Inr []
                       | Some calls \<Rightarrow> toolCallParts parse (signatureOf m) 0 calls) of
                   Inl e \<Rightarrow> Inl e
                 | Inr callParts \<Rightarrow>
                     Inr ((if textParts @ callParts = [] then []
                           else [\<lparr>content_role = role,
                                  content_parts = textParts @ callParts\<rparr>])
                          @ (case msg_tool_calls m of
                               None \<Rightarrow> []
                             | Some calls \<Rightarrow>
                                 if role = ''model'' \<and> calls \<noteq> [] then
                                   [\<lparr>content_role = ''user'',
                                     content_parts = map (functionResponse toolResponses) calls\<rparr>]
                                 else [])))))"

fun contentsOf ::
  "(string \<Rightarrow> json option) \<Rightarrow> message list \<Rightarrow> message list \<Rightarrow> js_error + content list" where
  "contentsOf parse toolResponses [] = Inr []"
| "contentsOf parse toolResponses (m # ms) =
     (case messageContents parse toolResponses m of
        Inl e \<Rightarrow> Inl e
      | Inr cs \<Rightarrow>
          (case contentsOf parse toolResponses ms of
             Inl e \<Rightarrow> Inl e
           | Inr rest \<Rightarrow> Inr (cs @ rest)))"

definition buildContents :: "(string \<Rightarrow> json option) \<Rightarrow> message list \<Rightarrow> js_error + content list" where
  "buildContents parse messages =
     contentsOf parse (filter (\<lambda>m. msg_role m = ''tool'') messages)
       (filter (\<lambda>m. msg_role m \<noteq> ''tool'') messages)"

text \<open>
  Reading the emitted contents. \<open>emittedFor\<close>: a functionCall part is the one made from a
  given tool call (its id, or a generated one when the tool call has none; its name; its
  parsed arguments). \<open>sameId\<close>: the id of a functionCall is the id of a functionResponse;
  a generated id is a fresh random string, which no response bears. \<open>answers\<close>: a
  functionResponse part answers a functionCall part when it has the same id and the same
  name, and its output is the content of the first tool-role message with that
  \<^verbatim>\<open>tool_call_id\<close> (\<^verbatim>\<open>undefined\<close> when there is none).
\<close>

fun isFunctionCall :: "part \<Rightarrow> bool" where
  "isFunctionCall (FunctionCall c sig) = True"
| "isFunctionCall p = False"

fun emittedFor :: "(string \<Rightarrow> json option) \<Rightarrow> tool_call \<Rightarrow> part \<Rightarrow> bool" where
  "emittedFor parse t (FunctionCall c sig) =
     (case tc_function t of
        None \<Rightarrow> False
      | Some f \<Rightarrow>
          fc_id c = idOr (tc_id t) ''tool_'' \<and> fc_name c = cf_name f
          \<and> parse (strOr (cf_arguments f) ''{}'') = Some (fc_args c))"
| "emittedFor parse t p = False"

fun sameId :: "generated_id \<Rightarrow> string option \<Rightarrow> bool" where
  "sameId (Given i) received = (received = Some i)"
| "sameId (Generated prefix) received = False"

fun answers :: "message list \<Rightarrow> part \<Rightarrow> part \<Rightarrow> bool" where
  "answers toolResponses (FunctionCall c sig) (FunctionResponse r) =
     (sameId (fc_id c) (fr_id r) \<and> fr_name r = fc_name c
      \<and> fr_output r =
          (case find (\<lambda>item. msg_tool_call_id item = fr_id r) toolResponses of
             None \<Rightarrow> ContentUndefined
           | Some m \<Rightarrow> msg_content m))"
| "answers toolResponses p q = False"

text \<open>The tool calls of a message, and whether each of them came with an id.\<close>

definition toolCallsOf :: "message \<Rightarrow> tool_call list" where
  "toolCallsOf m = (case msg_tool_calls m of None \<Rightarrow> [] | Some calls \<Rightarrow> calls)"

definition callsHaveIds :: "message \<Rightarrow> bool" where
  "callsHaveIds m = list_all (\<lambda>t. truthyStr (tc_id t)) (toolCallsOf m)"

definition needsAnswer :: "content \<Rightarrow> bool" where
  "needsAnswer c =
     (content_role c = ''model'' \<and> list_ex isFunctionCall (content_parts c))"

definition answeredBy :: "message list \<Rightarrow> content \<Rightarrow> content \<Rightarrow> bool" where
  "answeredBy toolResponses c d =
     (content_role d = ''user''
      \<and> list_all2 (answers toolResponses) (filter isFunctionCall (content_parts c))
           (content_parts d))"

definition wellPaired :: "message list \<Rightarrow> content list \<Rightarrow> bool" where
  "wellPaired toolResponses cs =
     list_all
       (\<lambda>i. needsAnswer (cs ! i)
              \<longrightarrow> Suc i < length cs \<and> answeredBy toolResponses (cs ! i) (cs ! Suc i))
       [0 ..< length cs]"

text \<open>
  \<^verbatim>\<open>transformRequestIn\<close> of the Antigravity transformer, as far as the properties below
  need it: the access token comes first (\<open>reply\<close> answers the refresh POST at time
  \<open>answered\<close>, when one is sent), then the contents, then the tools. The system
  instruction, the tool and generation configuration, the model mapping and the request
  ids are built after these; no property below concerns them and they are left out. Last,
  the envelope is appended to the log file with \<^verbatim>\<open>fs.appendFileSync\<close>, which throws when
  the file cannot be written (its directory is missing, say): \<open>logged\<close> is what it throws,
  \<open>None\<close> when the write succeeds.
\<close>

record chat_request =
  req_messages :: "message list"
  req_tools :: "tool list option"

record upstream_request =
  up_contents :: "content list"
  up_tools :: "function_declaration list option"
  up_authorization :: string

definition awaitToken :: "token_step \<Rightarrow> int \<Rightarrow> refresh_reply \<Rightarrow> js_error + string" where
  "awaitToken step answered reply =
     (case step of
        Throw m \<Rightarrow> Inl (Error m)
      | Return t \<Rightarrow> Inr (strOr t [])
      | RefreshPost credentials \<Rightarrow> fst (refreshSettled credentials answered reply))"

definition transformRequestIn ::
  "(string \<Rightarrow> json option) \<Rightarrow> credentials option \<Rightarrow> int \<Rightarrow> int \<Rightarrow> refresh_reply
     \<Rightarrow> js_error option \<Rightarrow> chat_request \<Rightarrow> js_error + upstream_request" where
  "transformRequestIn parse stored now answered reply logged request =
     (case awaitToken (getFreshAccessToken stored now) answered reply of
        Inl e \<Rightarrow> Inl e
      | Inr accessToken \<Rightarrow>
          (case buildContents parse (req_messages request) of
             Inl e \<Rightarrow> Inl e
           | Inr contents \<Rightarrow>
               (case buildTools (req_tools request) of
                  Inl e \<Rightarrow> Inl e
                | Inr tools \<Rightarrow>
                    (case logged of
                       Some e \<Rightarrow> Inl e
                     | None \<Rightarrow>
                         Inr \<lparr>up_contents = contents, up_tools = tools,
                              up_authorization = ''Bearer '' @ accessToken\<rparr>))))"

section \<open>Upstream replies\<close>

record upstream_function_call =
  ufc_id :: "string option"
  ufc_name :: "string option"
  ufc_args :: "json option"

record upstream_part =
  p_text :: "string option"
  p_thought :: bool
  p_thoughtSignature :: "string option"
  p_functionCall :: "upstream_function_call option"

record web_source =
  web_uri :: "string option"
  web_title :: "string option"
  web_domain :: "string option"

text \<open>A grounding chunk is its \<^verbatim>\<open>web\<close> field, which may be absent.\<close>

record grounding_metadata =
  groundingChunks :: "web_source option list option"
  webSearchQueries :: "string list option"

text \<open>\<open>cand_parts\<close> is \<^verbatim>\<open>candidate.content?.parts\<close>.\<close>

record candidate =
  cand_parts :: "upstream_part list option"
  finishReason :: "string option"
  groundingMetadata :: "grounding_metadata option"

record usage_metadata =
  promptTokenCount :: "nat option"
  candidatesTokenCount :: "nat option"
  totalTokenCount :: "nat option"

record payload =
  responseId :: "string option"
  candidates :: "candidate list"
  usageMetadata :: "usage_metadata option"

text \<open>
  A parsed upstream JSON object: its \<^verbatim>\<open>response\<close> field when it has one (the wrapped
  shape), and the payload fields it carries at top level (the bare shape).
\<close>

record upstream_json =
  response :: "payload option"
  bare :: payload

definition partsOf :: "candidate \<Rightarrow> upstream_part list" where
  "partsOf c = (case cand_parts c of None \<Rightarrow> [] | Some ps \<Rightarrow> ps)"

definition isThinkingPart :: "upstream_part \<Rightarrow> bool" where
  "isThinkingPart p = (truthyStr (p_text p) \<and> p_thought p)"

definition isTextPart :: "upstream_part \<Rightarrow> bool" where
  "isTextPart p = (truthyStr (p_text p) \<and> \<not> p_thought p)"

definition hasFunctionCall :: "upstream_part \<Rightarrow> bool" where
  "hasFunctionCall p = (p_functionCall p \<noteq> None)"

definition hasSignature :: "upstream_part \<Rightarrow> bool" where
  "hasSignature p = truthyStr (p_thoughtSignature p)"

definition textOf :: "upstream_part \<Rightarrow> string" where
  "textOf p = strOr (p_text p) []"

text \<open>\<^verbatim>\<open>parts.find(p => p.thoughtSignature)?.thoughtSignature\<close>.\<close>

definition findSignature :: "upstream_part list \<Rightarrow> string option" where
  "findSignature ps =
     (case find hasSignature ps of None \<Rightarrow> None | Some p \<Rightarrow> p_thoughtSignature p)"

text \<open>\<^verbatim>\<open>args || {}\<close>; the source passes it through \<^verbatim>\<open>JSON.stringify\<close>.\<close>

definition argsOrEmpty :: "json option \<Rightarrow> json" where
  "argsOrEmpty a = (case a of None \<Rightarrow> JObj [] | Some v \<Rightarrow> if truthy v then v else JObj [])"

section \<open>Response transformer: whole-body JSON\<close>

record tool_call_out =
  tco_id :: generated_id
  tco_name :: "string option"
  tco_arguments :: json

record thinking_out =
  th_content :: string
  th_signature :: string

text \<open>The chat-completion object, its single choice flattened into the record.\<close>

record unified_response =
  ur_id :: "string option"
  ur_finish_reason :: string
  ur_content :: string
  ur_tool_calls :: "tool_call_out list option"
  ur_thinking :: "thinking_out option"
  ur_created :: int
  ur_model :: string
  ur_completion_tokens :: nat
  ur_prompt_tokens :: nat
  ur_total_tokens :: nat

datatype json_outcome =
    Relay
  | ChatCompletion unified_response

definition toolCallOut :: "upstream_part \<Rightarrow> tool_call_out list" where
  "toolCallOut p =
     (case p_functionCall p of
        None \<Rightarrow> []
      | Some fc \<Rightarrow>
          [\<lparr>tco_id = idOr (ufc_id fc) ''tool_'', tco_name = ufc_name fc,
            tco_arguments = argsOrEmpty (ufc_args fc)\<rparr>])"

definition usageCount :: "usage_metadata option \<Rightarrow> (usage_metadata \<Rightarrow> nat option) \<Rightarrow> nat" where
  "usageCount u field = (case u of None \<Rightarrow> 0 | Some m \<Rightarrow> numOrZero (field m))"

text \<open>
  Reading the emitted tool calls: the tool call made from a part that carries a
  functionCall has the upstream id, or a generated one when the upstream sent none, and the
  call's name and arguments.
\<close>

definition toolCallFor :: "upstream_part \<Rightarrow> tool_call_out \<Rightarrow> bool" where
  "toolCallFor p t =
     (case p_functionCall p of
        None \<Rightarrow> False
      | Some fc \<Rightarrow>
          tco_id t = idOr (ufc_id fc) ''tool_'' \<and> tco_name t = ufc_name fc
          \<and> tco_arguments t = argsOrEmpty (ufc_args fc))"

text \<open>
  \<^verbatim>\<open>transformJsonResponse\<close> on the parsed body; \<open>now\<close> is \<^verbatim>\<open>Date.now()\<close>. \<open>Relay\<close> is
  \<^verbatim>\<open>return response\<close>, taken when the object has no \<^verbatim>\<open>response\<close> field or that has no
  first candidate.
\<close>

definition transformJsonResponse ::
  "string \<Rightarrow> int \<Rightarrow> upstream_json \<Rightarrow> string \<Rightarrow> json_outcome" where
  "transformJsonResponse defaultModel now data requestedModel =
     (case response data of
        None \<Rightarrow> Relay
      | Some r \<Rightarrow>
          (case candidates r of
             [] \<Rightarrow> Relay
           | candidate # others \<Rightarrow>
               (let modelToUse = (if requestedModel = [] then defaultModel else requestedModel);
                    parts = partsOf candidate;
                    thinkingContent = concat (map textOf (filter isThinkingPart parts));
                    nonThinkingParts = filter (\<lambda>p. \<not> isThinkingPart p) parts;
                    thinkingSignature = findSignature parts;
                    toolCalls = concat (map toolCallOut (filter hasFunctionCall nonThinkingParts));
                    textContent = join [CHR 0x0A] (map textOf (filter isTextPart nonThinkingParts))
                in ChatCompletion
                     \<lparr>ur_id = responseId r,
                      ur_finish_reason = toLowerCase (strOr (finishReason candidate) ''stop''),
                      ur_content = textContent,
                      ur_tool_calls = (if toolCalls = [] then None else Some toolCalls),
                      ur_thinking =
                        (case thinkingSignature of
                           None \<Rightarrow> None
                         | Some sig \<Rightarrow>
                             Some \<lparr>th_content =
                                      (if thinkingContent = [] then ''(no content)''
                                       else thinkingContent),
                                    th_signature = sig\<rparr>),
                      ur_created = now div 1000,
                      ur_model = modelToUse,
                      ur_completion_tokens = usageCount (usageMetadata r) candidatesTokenCount,
                      ur_prompt_tokens = usageCount (usageMetadata r) promptTokenCount,
                      ur_total_tokens = usageCount (usageMetadata r) totalTokenCount\<rparr>)))"

section \<open>Response transformer: event stream\<close>

record web_search_result =
  wsr_title :: "string option"
  wsr_url :: "string option"

datatype block =
    Thinking
  | TextBlock
  | ToolUse generated_id "string option"
  | ServerToolUse generated_id string
  | WebSearchToolResult generated_id "web_search_result list"

datatype delta =
    ThinkingDelta string
  | SignatureDelta string
  | TextDelta string
  | InputJsonDelta json

text \<open>
  The events of the target protocol. \<open>MessageStart\<close> carries the message id and the model,
  \<open>MessageDelta\<close> the input (when reported) and output token counts. The
  \<^verbatim>\<open>encrypted_content\<close> placeholder of a search result is derived from the clock and is
  not represented.
\<close>

datatype event =
    MessageStart generated_id string
  | ContentBlockStart int block
  | ContentBlockDelta int delta
  | ContentBlockStop int
  | MessageDelta "nat option" nat
  | MessageStop

text \<open>
  The variables of \<^verbatim>\<open>transformStreamResponse\<close>, together with the events enqueued on the
  controller so far.
\<close>

record stream_state =
  messageStartSent :: bool
  thinkingBlockStarted :: bool
  thinkingBlockIndex :: int
  textBlockStarted :: bool
  textBlockIndex :: int
  currentBlockIndex :: int
  signatureSent :: bool
  hasThinkingContent :: bool
  lastUsageMetadata :: "usage_metadata option"
  webSearchResultsSent :: bool
  enqueued :: "event list"

definition initialState :: stream_state where
  "initialState =
     \<lparr>messageStartSent = False, thinkingBlockStarted = False, thinkingBlockIndex = -1,
      textBlockStarted = False, textBlockIndex = -1, currentBlockIndex = -1,
      signatureSent = False, hasThinkingContent = False, lastUsageMetadata = None,
      webSearchResultsSent = False, enqueued = []\<rparr>"

definition sendEvent :: "event \<Rightarrow> stream_state \<Rightarrow> stream_state" where
  "sendEvent e st = st\<lparr>enqueued := enqueued st @ [e]\<rparr>"

definition startThinkingBlock :: "stream_state \<Rightarrow> stream_state" where
  "startThinkingBlock st =
     (if thinkingBlockStarted st then st
      else (let i = currentBlockIndex st + 1
            in (sendEvent (ContentBlockStart i Thinking)
                  (st\<lparr>currentBlockIndex := i, thinkingBlockIndex := i\<rparr>))
               \<lparr>thinkingBlockStarted := True\<rparr>))"

definition thinkingPart :: "stream_state \<Rightarrow> upstream_part \<Rightarrow> stream_state" where
  "thinkingPart st p =
     (let st1 = startThinkingBlock (st\<lparr>hasThinkingContent := True\<rparr>)
      in sendEvent (ContentBlockDelta (thinkingBlockIndex st1) (ThinkingDelta (textOf p))) st1)"

definition signatureStep :: "upstream_part list \<Rightarrow> stream_state \<Rightarrow> stream_state" where
  "signatureStep parts st =
     (case findSignature parts of
        None \<Rightarrow> st
      | Some signature \<Rightarrow>
          if signatureSent st then st
          else (let st1 = startThinkingBlock st;
                    st2 = sendEvent (ContentBlockDelta (thinkingBlockIndex st1)
                                       (SignatureDelta signature)) st1;
                    st3 = sendEvent (ContentBlockStop (thinkingBlockIndex st2)) st2
                in st3\<lparr>signatureSent := True, thinkingBlockStarted := False\<rparr>))"

definition textPart :: "stream_state \<Rightarrow> upstream_part \<Rightarrow> stream_state" where
  "textPart st p =
     (let st1 = (if thinkingBlockStarted st \<and> \<not> signatureSent st
                 then (sendEvent (ContentBlockStop (thinkingBlockIndex st)) st)
                        \<lparr>thinkingBlockStarted := False\<rparr>
                 else st);
          st2 = (if textBlockStarted st1 then st1
                 else (let i = currentBlockIndex st1 + 1
                       in (sendEvent (ContentBlockStart i TextBlock)
                             (st1\<lparr>currentBlockIndex := i, textBlockIndex := i\<rparr>))
                          \<lparr>textBlockStarted := True\<rparr>))
      in sendEvent (ContentBlockDelta (textBlockIndex st2) (TextDelta (textOf p))) st2)"

definition toolCallPart :: "stream_state \<Rightarrow> upstream_part \<Rightarrow> stream_state" where
  "toolCallPart st p =
     (case p_functionCall p of
        None \<Rightarrow> st
      | Some fc \<Rightarrow>
          (let toolBlockIndex = currentBlockIndex st + 1;
               st1 = sendEvent (ContentBlockStart toolBlockIndex
                                  (ToolUse (idOr (ufc_id fc) ''toolu_'') (ufc_name fc)))
                       (st\<lparr>currentBlockIndex := toolBlockIndex\<rparr>);
               st2 = sendEvent (ContentBlockDelta toolBlockIndex
                                  (InputJsonDelta (argsOrEmpty (ufc_args fc)))) st1
           in sendEvent (ContentBlockStop toolBlockIndex) st2))"

definition webSearchResults :: "web_source option list \<Rightarrow> web_search_result list" where
  "webSearchResults chunks =
     concat (map (\<lambda>chunk. case chunk of
                    None \<Rightarrow> []
                  | Some w \<Rightarrow>
                      [\<lparr>wsr_title = (if truthyStr (web_title w) then web_title w
                                      else web_domain w),
                        wsr_url = web_uri w\<rparr>]) chunks)"

definition searchQueryOf :: "grounding_metadata \<Rightarrow> string" where
  "searchQueryOf g =
     (case webSearchQueries g of
        None \<Rightarrow> []
      | Some qs \<Rightarrow> (case qs of [] \<Rightarrow> [] | q # rest \<Rightarrow> q))"

text \<open>
  The grounding step. The source tests \<^verbatim>\<open>webSearchResultsSent\<close> and never assigns it, so
  the flag stays as it started.
\<close>

definition groundingStep :: "candidate \<Rightarrow> stream_state \<Rightarrow> stream_state" where
  "groundingStep c st =
     (case groundingMetadata c of
        None \<Rightarrow> st
      | Some g \<Rightarrow>
          (case groundingChunks g of
             None \<Rightarrow> st
           | Some chunks \<Rightarrow>
               if webSearchResultsSent st \<or> chunks = [] then st
               else
                 (let st1 = (if textBlockStarted st
                             then (sendEvent (ContentBlockStop (textBlockIndex st)) st)
                                    \<lparr>textBlockStarted := False\<rparr>
                             else st);
                      searchToolId = Generated ''srvtoolu_'';
                      serverToolUseIndex = currentBlockIndex st1 + 1;
                      st2 = sendEvent (ContentBlockStart serverToolUseIndex
                                         (ServerToolUse searchToolId (searchQueryOf g)))
                              (st1\<lparr>currentBlockIndex := serverToolUseIndex\<rparr>);
                      st3 = sendEvent (ContentBlockStop serverToolUseIndex) st2;
                      searchResultIndex = currentBlockIndex st3 + 1;
                      st4 = sendEvent (ContentBlockStart searchResultIndex
                                         (WebSearchToolResult searchToolId (webSearchResults chunks)))
                              (st3\<lparr>currentBlockIndex := searchResultIndex\<rparr>)
                  in sendEvent (ContentBlockStop searchResultIndex) st4)))"

definition closeMessage :: "stream_state \<Rightarrow> stream_state" where
  "closeMessage st =
     sendEvent MessageStop
       (sendEvent (MessageDelta (Some (usageCount (lastUsageMetadata st) promptTokenCount))
                     (usageCount (lastUsageMetadata st) candidatesTokenCount)) st)"

definition finishStep :: "candidate \<Rightarrow> stream_state \<Rightarrow> stream_state" where
  "finishStep c st =
     (if truthyStr (finishReason c) then
        (let st1 = (if thinkingBlockStarted st
                    then (sendEvent (ContentBlockStop (thinkingBlockIndex st)) st)
                           \<lparr>thinkingBlockStarted := False\<rparr>
                    else st);
             st2 = (if textBlockStarted st1
                    then (sendEvent (ContentBlockStop (textBlockIndex st1)) st1)
                           \<lparr>textBlockStarted := False\<rparr>
                    else st1)
         in closeMessage st2)
      else st)"

text \<open>
  One parsed \<^verbatim>\<open>data:\<close> line. \<^verbatim>\<open>chunk.response || chunk\<close> unwraps the object; a line
  without a first candidate changes nothing.
\<close>

definition handleChunk :: "string \<Rightarrow> stream_state \<Rightarrow> upstream_json \<Rightarrow> stream_state" where
  "handleChunk modelToUse st chunk =
     (let responseData = (case response chunk of None \<Rightarrow> bare chunk | Some r \<Rightarrow> r)
      in case candidates responseData of
           [] \<Rightarrow> st
         | candidate # others \<Rightarrow>
             (let parts = partsOf candidate;
                  st1 = (case usageMetadata responseData of
                           None \<Rightarrow> st
                         | Some u \<Rightarrow> st\<lparr>lastUsageMetadata := Some u\<rparr>);
                  st2 = (if messageStartSent st1 then st1
                         else (sendEvent (MessageStart (idOr (responseId responseData) ''msg_'')
                                            modelToUse) st1)
                                \<lparr>messageStartSent := True\<rparr>);
                  st3 = foldl thinkingPart st2 (filter isThinkingPart parts);
                  st4 = signatureStep parts st3;
                  st5 = foldl textPart st4 (filter isTextPart parts);
                  st6 = foldl toolCallPart st5 (filter hasFunctionCall parts)
              in finishStep candidate (groundingStep candidate st6)))"

text \<open>
  One complete line of the body. \<open>parse\<close> stands for \<^verbatim>\<open>JSON.parse\<close> of the trimmed text
  after \<^verbatim>\<open>data: \<close>: \<open>None\<close> when that text is empty or not valid JSON, the two cases in
  which the source goes on to the next line.
\<close>

definition handleLine ::
  "(string \<Rightarrow> upstream_json option) \<Rightarrow> string \<Rightarrow> stream_state \<Rightarrow> string \<Rightarrow> stream_state" where
  "handleLine parse modelToUse st line =
     (if startsWith line ''data: '' then
        (case parse (drop 6 line) of
           None \<Rightarrow> st
         | Some chunk \<Rightarrow> handleChunk modelToUse st chunk)
      else st)"

text \<open>
  The read loop over the decoded chunks of the body: the text after the last newline stays
  in \<open>buffer\<close> for the next chunk.
\<close>

fun readLoop ::
  "(string \<Rightarrow> upstream_json option) \<Rightarrow> string \<Rightarrow> stream_state \<Rightarrow> string \<Rightarrow> string list
     \<Rightarrow> stream_state" where
  "readLoop parse modelToUse st buffer [] = st"
| "readLoop parse modelToUse st buffer (v # vs) =
     (let lines = split (CHR 0x0A) (buffer @ v)
      in readLoop parse modelToUse (foldl (handleLine parse modelToUse) st (butlast lines))
           (last lines) vs)"

text \<open>After the loop: the blocks still open are closed and the message is closed.\<close>

definition endOfStream :: "stream_state \<Rightarrow> stream_state" where
  "endOfStream st =
     (let st1 = (if thinkingBlockStarted st
                 then sendEvent (ContentBlockStop (thinkingBlockIndex st)) st else st);
          st2 = (if textBlockStarted st1
                 then sendEvent (ContentBlockStop (textBlockIndex st1)) st1 else st1)
      in if messageStartSent st2 then closeMessage st2 else st2)"

text \<open>The events \<^verbatim>\<open>transformStreamResponse\<close> enqueues for a body that arrives in \<open>chunks\<close>.\<close>

definition streamEvents ::
  "(string \<Rightarrow> upstream_json option) \<Rightarrow> string \<Rightarrow> string \<Rightarrow> string list \<Rightarrow> event list" where
  "streamEvents parse defaultModel requestedModel chunks =
     enqueued (endOfStream
       (readLoop parse (if requestedModel = [] then defaultModel else requestedModel)
          initialState [] chunks))"

text \<open>
  Reading an event list: the indices of its \<^verbatim>\<open>content_block_start\<close> events in order;
  the blocks left open by it, starting from a set of open blocks (\<open>None\<close> when an index
  is started while open, or stopped while not open); and its \<^verbatim>\<open>message_start\<close> events.
\<close>

fun blockStarts :: "event list \<Rightarrow> int list" where
  "blockStarts [] = []"
| "blockStarts (ContentBlockStart i b # es) = i # blockStarts es"
| "blockStarts (e # es) = blockStarts es"

fun balance :: "int set \<Rightarrow> event list \<Rightarrow> int set option" where
  "balance opened [] = Some opened"
| "balance opened (ContentBlockStart i b # es) =
     (if i \<in> opened then None else balance (insert i opened) es)"
| "balance opened (ContentBlockStop i # es) =
     (if i \<in> opened then balance (opened - {i}) es else None)"
| "balance opened (e # es) = balance opened es"

fun isMessageStart :: "event \<Rightarrow> bool" where
  "isMessageStart (MessageStart i m) = True"
| "isMessageStart e = False"

text \<open>
  The blocks a state holds open, and the invariant of the state machine: the events
  enqueued so far leave exactly those blocks open, block indices were started in strictly
  increasing order and none exceeds \<^verbatim>\<open>currentBlockIndex\<close>, and \<^verbatim>\<open>message_start\<close> was
  enqueued once if \<^verbatim>\<open>messageStartSent\<close> and never otherwise.
\<close>

definition openSet :: "stream_state \<Rightarrow> int set" where
  "openSet st =
     (if thinkingBlockStarted st then {thinkingBlockIndex st} else {})
     \<union> (if textBlockStarted st then {textBlockIndex st} else {})"

definition streamInv :: "stream_state \<Rightarrow> bool" where
  "streamInv st =
     (balance {} (enqueued st) = Some (openSet st)
      \<and> sorted_wrt (<) (blockStarts (enqueued st))
      \<and> (\<forall>i \<in> set (blockStarts (enqueued st)). i \<le> currentBlockIndex st)
      \<and> (\<forall>i \<in> openSet st. i \<le> currentBlockIndex st)
      \<and> (thinkingBlockStarted st \<and> textBlockStarted st
            \<longrightarrow> thinkingBlockIndex st \<noteq> textBlockIndex st)
      \<and> length (filter isMessageStart (enqueued st)) = (if messageStartSent st then 1 else 0))"

section \<open>Response transformer: dispatch\<close>

text \<open>
  \<^verbatim>\<open>transformWebSearchResponse\<close> of the Antigravity transformer: the events it enqueues,
  or the error it throws when the reply has no first candidate.
\<close>

definition transformWebSearchResponse :: "upstream_json \<Rightarrow> string \<Rightarrow> js_error + event list" where
  "transformWebSearchResponse result model =
     (case (case response result of None \<Rightarrow> [] | Some r \<Rightarrow> candidates r) of
        [] \<Rightarrow> Inl (Error ''No candidate in web search response'')
      | candidate # others \<Rightarrow>
          (let textContent = concat (map textOf (filter isTextPart (partsOf candidate)));
               chunks = (case groundingMetadata candidate of
                           None \<Rightarrow> []
                         | Some g \<Rightarrow> (case groundingChunks g of None \<Rightarrow> [] | Some cs \<Rightarrow> cs));
               searchQuery = (case groundingMetadata candidate of
                                None \<Rightarrow> []
                              | Some g \<Rightarrow> searchQueryOf g);
               searchToolId = Generated ''srvtoolu_'';
               modelName = (if model = [] then ''claude-sonnet-4-5-20250514'' else model)
           in Inr ([MessageStart (Generated ''msg_'') modelName,
                    ContentBlockStart 0 (ServerToolUse searchToolId searchQuery),
                    ContentBlockStop 0,
                    ContentBlockStart 1 (WebSearchToolResult searchToolId (webSearchResults chunks)),
                    ContentBlockStop 1]
                   @ (if textContent = [] then []
                      else [ContentBlockStart 2 TextBlock,
                            ContentBlockDelta 2 (TextDelta textContent),
                            ContentBlockStop 2])
                   @ [MessageDelta None
                        (usageCount (case response result of
                                       None \<Rightarrow> None
                                     | Some r \<Rightarrow> usageMetadata r) candidatesTokenCount),
                      MessageStop])))"

text \<open>
  An HTTP response as the transformer sees it: the body is the list of its decoded chunks,
  \<open>None\<close> when there is no body; \<open>resp_bodyUsed\<close> is the \<^verbatim>\<open>bodyUsed\<close> flag of the
  Fetch API, set once the body has been read (a body can be read once).
\<close>

record http_response =
  resp_status :: nat
  resp_statusText :: string
  resp_headers :: "(string \<times> string) list"
  resp_body :: "string list option"
  resp_bodyUsed :: bool

record response_context =
  ctx_requestModel :: "string option"
  ctx_isWebSearch :: bool

datatype response_body =
    EventStream "event list"
  | JsonText unified_response

text \<open>
  What \<^verbatim>\<open>transformResponseOut\<close> returns: the response it was given, or a new response
  with its status, status text, headers and body.
\<close>

datatype response_out =
    Relayed http_response
  | Rewritten nat string "(string \<times> string) list" response_body

text \<open>\<^verbatim>\<open>headers.get(name)\<close>: header names compare without case.\<close>

definition headerGet :: "(string \<times> string) list \<Rightarrow> string \<Rightarrow> string option" where
  "headerGet hs name =
     map_option snd (find (\<lambda>h. toLowerCase (fst h) = toLowerCase name) hs)"

definition bodyText :: "http_response \<Rightarrow> string" where
  "bodyText r = (case resp_body r of None \<Rightarrow> [] | Some chunks \<Rightarrow> concat chunks)"

definition streamHeaders :: "(string \<times> string) list" where
  "streamHeaders =
     [(''Content-Type'', ''text/event-stream''), (''Cache-Control'', ''no-cache''),
      (''Connection'', ''keep-alive''), (''X-Skip-Response-Transform'', ''true'')]"

definition webSearchHeaders :: "(string \<times> string) list" where
  "webSearchHeaders =
     [(''Content-Type'', ''text/event-stream''), (''Cache-Control'', ''no-cache''),
      (''Connection'', ''keep-alive'')]"

text \<open>
  \<^verbatim>\<open>transformResponseOut\<close> of the Antigravity transformer. It chooses its branch by the
  content type alone; \<^verbatim>\<open>response.json()\<close> reads the body and rejects with a SyntaxError
  when it is not JSON, so the response that \<^verbatim>\<open>transformJsonResponse\<close> returns as it came
  has had its body read. \<open>parse\<close> is \<^verbatim>\<open>JSON.parse\<close> into the typed reply.
\<close>

definition transformResponseOut ::
  "(string \<Rightarrow> upstream_json option) \<Rightarrow> string \<Rightarrow> int \<Rightarrow> http_response \<Rightarrow> response_context
     \<Rightarrow> js_error + response_out" where
  "transformResponseOut parse defaultModel now resp context =
     (let contentType = strOr (headerGet (resp_headers resp) ''Content-Type'') [];
          requestedModel = strOr (ctx_requestModel context) defaultModel
      in if ctx_isWebSearch context \<and> str_includes contentType ''application/json'' then
           (case parse (bodyText resp) of
              None \<Rightarrow> Inl SyntaxError
            | Some result \<Rightarrow>
                (case transformWebSearchResponse result requestedModel of
                   Inl e \<Rightarrow> Inl e
                 | Inr events \<Rightarrow> Inr (Rewritten 200 [] webSearchHeaders (EventStream events))))
         else if str_includes contentType ''text/event-stream''
                 \<or> str_includes contentType ''stream'' then
           (case resp_body resp of
              None \<Rightarrow> Inr (Relayed resp)
            | Some chunks \<Rightarrow>
                Inr (Rewritten (resp_status resp) (resp_statusText resp) streamHeaders
                       (EventStream (streamEvents parse defaultModel requestedModel chunks))))
         else if str_includes contentType ''application/json'' then
           (case parse (bodyText resp) of
              None \<Rightarrow> Inl SyntaxError
            | Some data \<Rightarrow>
                (case transformJsonResponse defaultModel now data requestedModel of
                   Relay \<Rightarrow> Inr (Relayed (resp\<lparr>resp_bodyUsed := True\<rparr>))
                 | ChatCompletion u \<Rightarrow>
                     Inr (Rewritten (resp_status resp) (resp_statusText resp)
                            (resp_headers resp) (JsonText u))))
         else Inr (Relayed resp))"

text \<open>A response is an error response when its status is outside 200..299.\<close>

definition responseOk :: "http_response \<Rightarrow> bool" where
  "responseOk r = (200 \<le> resp_status r \<and> resp_status r \<le> 299)"

section \<open>Example inputs\<close>

text \<open>
  Credentials whose stored access token expires at 1000000 ms, and a conversation in which
  the assistant called two tools and only the first call was answered by a tool message.
  \<open>exampleParse\<close> parses the one argument string that occurs.
\<close>

definition exampleCredentials :: credentials where
  "exampleCredentials =
     \<lparr>client_id = ''id'', client_secret = ''secret'', refresh_token = Some ''refresh'',
      access_token = Some ''token'', token_expiry = Some 1000000, expiry_date = None\<rparr>"

definition exampleParse :: "string \<Rightarrow> json option" where
  "exampleParse s = (if s = ''{}'' then Some (JObj []) else None)"

definition exampleRequest :: chat_request where
  "exampleRequest =
     \<lparr>req_messages =
        [\<lparr>msg_role = ''user'', msg_content = ContentString ''list the files'',
          msg_signature = None, msg_tool_calls = None, msg_tool_call_id = None\<rparr>,
         \<lparr>msg_role = ''assistant'', msg_content = ContentString ''Let me look'',
          msg_signature = None,
          msg_tool_calls =
            Some [\<lparr>tc_id = Some ''toolu_1'',
                   tc_function = Some \<lparr>cf_name = Some ''ls'', cf_arguments = Some ''{}''\<rparr>\<rparr>,
                  \<lparr>tc_id = Some ''toolu_2'',
                   tc_function = Some \<lparr>cf_name = Some ''pwd'', cf_arguments = None\<rparr>\<rparr>],
          msg_tool_call_id = None\<rparr>,
         \<lparr>msg_role = ''tool'', msg_content = ContentString ''a.txt'',
          msg_signature = None, msg_tool_calls = None, msg_tool_call_id = Some ''toolu_1''\<rparr>],
      req_tools = None\<rparr>"

definition exampleEnvelope :: upstream_request where
  "exampleEnvelope =
     \<lparr>up_contents =
        [\<lparr>content_role = ''user'', content_parts = [TextPart ''list the files'' None]\<rparr>,
         \<lparr>content_role = ''model'',
          content_parts =
            [TextPart ''Let me look'' None,
             FunctionCall \<lparr>fc_id = Given ''toolu_1'', fc_name = Some ''ls'', fc_args = JObj []\<rparr>
               None,
             FunctionCall \<lparr>fc_id = Given ''toolu_2'', fc_name = Some ''pwd'', fc_args = JObj []\<rparr>
               None]\<rparr>,
         \<lparr>content_role = ''user'',
          content_parts =
            [FunctionResponse \<lparr>fr_id = Some ''toolu_1'', fr_name = Some ''ls'',
                               fr_output = ContentString ''a.txt''\<rparr>,
             FunctionResponse \<lparr>fr_id = Some ''toolu_2'', fr_name = Some ''pwd'',
                               fr_output = ContentUndefined\<rparr>]\<rparr>],
      up_tools = None,
      up_authorization = ''Bearer token''\<rparr>"

text \<open>
  A conversation in which the one tool call of the assistant came without an id (the tool
  message that answers it has no \<^verbatim>\<open>tool_call_id\<close> either), and the envelope made from
  it.
\<close>

definition idlessRequest :: chat_request where
  "idlessRequest =
     \<lparr>req_messages =
        [\<lparr>msg_role = ''user'', msg_content = ContentString ''list the files'',
          msg_signature = None, msg_tool_calls = None, msg_tool_call_id = None\<rparr>,
         \<lparr>msg_role = ''assistant'', msg_content = ContentUndefined,
          msg_signature = None,
          msg_tool_calls =
            Some [\<lparr>tc_id = None,
                   tc_function = Some \<lparr>cf_name = Some ''ls'', cf_arguments = Some ''{}''\<rparr>\<rparr>],
          msg_tool_call_id = None\<rparr>,
         \<lparr>msg_role = ''tool'', msg_content = ContentString ''a.txt'',
          msg_signature = None, msg_tool_calls = None, msg_tool_call_id = None\<rparr>],
      req_tools = None\<rparr>"

definition idlessEnvelope :: upstream_request where
  "idlessEnvelope =
     \<lparr>up_contents =
        [\<lparr>content_role = ''user'', content_parts = [TextPart ''list the files'' None]\<rparr>,
         \<lparr>content_role = ''model'',
          content_parts =
            [FunctionCall
               \<lparr>fc_id = Generated ''tool_'', fc_name = Some ''ls'', fc_args = JObj []\<rparr> None]\<rparr>,
         \<lparr>content_role = ''user'',
          content_parts =
            [FunctionResponse \<lparr>fr_id = None, fr_name = Some ''ls'',
                               fr_output = ContentString ''a.txt''\<rparr>]\<rparr>],
      up_tools = None,
      up_authorization = ''Bearer token''\<rparr>"

text \<open>
  Upstream replies built from a list of parts: a thought, two texts, a part that only
  carries a signature, and a function call without id.
\<close>

definition exThought :: upstream_part where
  "exThought = \<lparr>p_text = Some ''Hello!'', p_thought = True, p_thoughtSignature = None,
                 p_functionCall = None\<rparr>"

definition exText :: upstream_part where
  "exText = \<lparr>p_text = Some ''The answer'', p_thought = False, p_thoughtSignature = None,
              p_functionCall = None\<rparr>"

definition exText2 :: upstream_part where
  "exText2 = \<lparr>p_text = Some ''is 42'', p_thought = False, p_thoughtSignature = None,
               p_functionCall = None\<rparr>"

definition exSignature :: upstream_part where
  "exSignature = \<lparr>p_text = None, p_thought = False, p_thoughtSignature = Some ''sig_abc'',
                   p_functionCall = None\<rparr>"

definition exCall :: upstream_part where
  "exCall = \<lparr>p_text = None, p_thought = False, p_thoughtSignature = None,
              p_functionCall = Some \<lparr>ufc_id = None, ufc_name = Some ''ls'', ufc_args = None\<rparr>\<rparr>"

definition exampleCandidate :: "upstream_part list \<Rightarrow> candidate" where
  "exampleCandidate ps =
     \<lparr>cand_parts = Some ps, finishReason = Some ''STOP'', groundingMetadata = None\<rparr>"

definition examplePayload :: "upstream_part list \<Rightarrow> payload" where
  "examplePayload ps =
     \<lparr>responseId = Some ''resp_123'', candidates = [exampleCandidate ps],
      usageMetadata = Some \<lparr>promptTokenCount = Some 100, candidatesTokenCount = Some 50,
                            totalTokenCount = Some 150\<rparr>\<rparr>"

definition emptyPayload :: payload where
  "emptyPayload = \<lparr>responseId = None, candidates = [], usageMetadata = None\<rparr>"

definition wrappedReply :: "upstream_part list \<Rightarrow> upstream_json" where
  "wrappedReply ps = \<lparr>response = Some (examplePayload ps), bare = emptyPayload\<rparr>"

definition bareReply :: "upstream_part list \<Rightarrow> upstream_json" where
  "bareReply ps = \<lparr>response = None, bare = examplePayload ps\<rparr>"

text \<open>
  The body of a reply that carries its candidates at top level, with the one text part
  \<open>exText\<close>, and a parser that knows it.
\<close>

definition bareReplyText :: string where
  "bareReplyText =
     ''{\"responseId\":\"resp_123\",\"candidates\":[{\"content\":{\"parts\":''
     @ ''[{\"text\":\"The answer\"}]},\"finishReason\":\"STOP\"}],\"usageMetadata\":''
     @ ''{\"promptTokenCount\":100,\"candidatesTokenCount\":50,\"totalTokenCount\":150}}''"

definition exampleParseBare :: "string \<Rightarrow> upstream_json option" where
  "exampleParseBare s = (if s = bareReplyText then Some (bareReply [exText]) else None)"

text \<open>The chat completion expected for such a reply, up to content, tool calls and thinking.\<close>

definition exampleCompletion ::
  "string \<Rightarrow> tool_call_out list option \<Rightarrow> thinking_out option \<Rightarrow> unified_response" where
  "exampleCompletion text calls thinking =
     \<lparr>ur_id = Some ''resp_123'', ur_finish_reason = ''stop'', ur_content = text,
      ur_tool_calls = calls, ur_thinking = thinking, ur_created = 1700000000,
      ur_model = ''claude-opus-4-5-20251101'', ur_completion_tokens = 50,
      ur_prompt_tokens = 100, ur_total_tokens = 150\<rparr>"

text \<open>
  One line of an event stream, and a parser that knows its payload: a wrapped reply with
  the text \<^verbatim>\<open>Hello!\<close> and the finish reason \<^verbatim>\<open>STOP\<close>.
\<close>

definition exampleChunkText :: string where
  "exampleChunkText =
     ''{\"response\":{\"candidates\":[{\"content\":{\"parts\":[{\"text\":\"Hello!\"}]},''
     @ ''\"finishReason\":\"STOP\"}],\"usageMetadata\":{\"promptTokenCount\":100,''
     @ ''\"candidatesTokenCount\":50}}}''"

definition exampleChunk :: upstream_json where
  "exampleChunk =
     \<lparr>response =
        Some \<lparr>responseId = None,
              candidates =
                [\<lparr>cand_parts =
                    Some [\<lparr>p_text = Some ''Hello!'', p_thought = False,
                           p_thoughtSignature = None, p_functionCall = None\<rparr>],
                  finishReason = Some ''STOP'', groundingMetadata = None\<rparr>],
              usageMetadata =
                Some \<lparr>promptTokenCount = Some 100, candidatesTokenCount = Some 50,
                      totalTokenCount = None\<rparr>\<rparr>,
      bare = emptyPayload\<rparr>"

definition exampleParseChunk :: "string \<Rightarrow> upstream_json option" where
  "exampleParseChunk s = (if s = exampleChunkText then Some exampleChunk else None)"

section \<open>Properties of the schema sanitizer and the tool declarations\<close>

lemma supportedOnly_simps [simp]:
  "supportedOnly []"
  "supportedOnly (k # ks) \<longleftrightarrow> k \<notin> set unsupportedKeys \<and> supportedOnly ks"
  "supportedOnly (ks @ ls) \<longleftrightarrow> supportedOnly ks \<and> supportedOnly ls"
  by (auto simp: supportedOnly_def)

lemma allKeys_deleteKey:
  "set (allKeysEntries (deleteKey k kvs)) \<subseteq> set (allKeysEntries kvs)"
  by (induction kvs) (auto simp: deleteKey_def)

lemma supportedOnly_dropDanglingRequired:
  "supportedOnly (allKeysEntries kvs)
   \<Longrightarrow> supportedOnly (allKeysEntries (dropDanglingRequired r p kvs))"
  using allKeys_deleteKey [of "''required''" kvs]
  by (auto simp: dropDanglingRequired_def supportedOnly_def list_all_iff)

lemma type_supported: "''type'' \<notin> set unsupportedKeys"
  by (simp add: unsupportedKeys_def)

text \<open>
  What does hold of the sanitizer: whenever it returns, no key of the deny-list is left at
  any depth of the result, inside arrays and \<^verbatim>\<open>items\<close> included.
\<close>

lemma cleanParameters_supportedOnly:
  "(\<forall>y. cleanParameters x = Inr y \<longrightarrow> supportedOnly (allKeys y))"
  "(\<forall>ys. cleanArray xs = Inr ys \<longrightarrow> supportedOnly (allKeysArray ys))"
  "(\<forall>cleaned. cleanEntries kvs = Inr cleaned \<longrightarrow> supportedOnly (allKeysEntries cleaned))"
  "inheritedField k es \<longrightarrow> protoOf es \<noteq> None"
proof (induction x and xs and kvs and k es
    rule: cleanParameters_cleanArray_cleanEntries_inheritedField.induct)
  case (1 kvs)
  then show ?case
    by (auto split: sum.splits intro: supportedOnly_dropDanglingRequired)
next
  case (2 xs)
  then show ?case by (auto split: sum.splits)
next
  case (8 x xs)
  then show ?case by (auto split: sum.splits)
next
  case (10 key v rest)
  then show ?case
    by (auto simp: type_supported split: sum.splits if_splits)
next
  case (11 k kvs)
  then show ?case by (simp add: inheritedField.simps split: option.splits json.splits)
qed simp_all

text \<open>
  A schema with a key \<^verbatim>\<open>__proto__\<close>: the key leaves no property in the result, and
  \<^verbatim>\<open>required\<close> stays when the object assigned as prototype has \<^verbatim>\<open>properties\<close>, as it
  does when the schema has \<^verbatim>\<open>properties\<close> of its own; without either it is deleted.
\<close>

lemma cleanParameters_prototype:
  "cleanParameters
     (JObj [(''type'', JStr ''object''),
            (''__proto__'',
             JObj [(''properties'', JObj [(''path'', JObj [(''type'', JStr ''string'')])])]),
            (''required'', JArr [JStr ''path''])])
   = Inr (JObj [(''type'', JStr ''object''), (''required'', JArr [JStr ''path''])])
   \<and> cleanParameters
        (JObj [(''type'', JStr ''object''), (''__proto__'', JStr ''none''),
               (''required'', JArr [JStr ''path''])])
      = Inr (JObj [(''type'', JStr ''object'')])"
  by code_simp

text \<open>
  C4. The sanitizer is stated to be idempotent, to drop empty \<^verbatim>\<open>properties\<close> objects and
  to remove \<^verbatim>\<open>required\<close> when no properties remain. On the schema of a tool whose only
  parameter is called \<^verbatim>\<open>pattern\<close> the first pass removes that parameter (its name is on
  the deny-list) and leaves an empty \<^verbatim>\<open>properties\<close> object next to \<^verbatim>\<open>required\<close>; only
  a second pass drops both, so the two passes differ.
\<close>

theorem cleanParameters_second_pass_differs:
  "cleanParameters
     (JObj [(''type'', JStr ''object''),
            (''properties'', JObj [(''pattern'', JObj [(''type'', JStr ''string'')])]),
            (''required'', JArr [JStr ''pattern''])])
   = Inr (JObj [(''type'', JStr ''object''), (''properties'', JObj []),
                (''required'', JArr [JStr ''pattern''])])
   \<and> cleanParameters
        (JObj [(''type'', JStr ''object''), (''properties'', JObj []),
               (''required'', JArr [JStr ''pattern''])])
      = Inr (JObj [(''type'', JStr ''object'')])"
  by code_simp

text \<open>
  C2. Every \<^verbatim>\<open>type\<close> in the parameters of an emitted declaration is stated to be one of
  the upper-case upstream names, an empty schema giving \<^verbatim>\<open>{type: OBJECT, properties: {}}\<close>.
  The request transformer emits the sanitized schema with its type names as they came, and
  \<^verbatim>\<open>{type: 'object', properties: {}}\<close> for a tool without a schema.
\<close>

theorem buildTools_keeps_lowercase_types:
  "buildTools
     (Some [\<lparr>tool_type = None, tool_name = Some ''search'', tool_description = Some ''Search'',
             tool_input_schema =
               Some (JObj [(''type'', JStr ''object''),
                           (''properties'',
                            JObj [(''query'', JObj [(''type'', JStr ''string'')])])]),
             tool_parameters = None, tool_function = None\<rparr>,
            \<lparr>tool_type = None, tool_name = Some ''ping'', tool_description = None,
             tool_input_schema = None, tool_parameters = None, tool_function = None\<rparr>])
   = Inr (Some [\<lparr>fd_name = Some ''search'', fd_description = ''Search'',
                  fd_parameters =
                    JObj [(''type'', JStr ''object''),
                          (''properties'',
                           JObj [(''query'', JObj [(''type'', JStr ''string'')])])]\<rparr>,
                 \<lparr>fd_name = Some ''ping'', fd_description = [],
                  fd_parameters =
                    JObj [(''type'', JStr ''object''), (''properties'', JObj [])]\<rparr>])
   \<and> valuesAt ''type''
        (JObj [(''type'', JStr ''object''),
               (''properties'', JObj [(''query'', JObj [(''type'', JStr ''string'')])])])
      = [JStr ''object'', JStr ''string'']
   \<and> JStr ''object'' \<notin> set upstreamTypes \<and> JStr ''string'' \<notin> set upstreamTypes"
  by code_simp

section \<open>Properties of the router\<close>

text \<open>
  C7. The web-search tool is the tool of type \<^verbatim>\<open>web_search_20250305\<close> (its name is
  \<^verbatim>\<open>web_search\<close>): the router recognises it by its \<^verbatim>\<open>type\<close> field. Whenever
  \<^verbatim>\<open>req.tools\<close> contains it, the router selects \<^verbatim>\<open>antigravity-websearch,gemini-2.5-flash\<close>
  and marks the request as a web search, whatever the other tools and the declared model.
\<close>

theorem router_web_search:
  assumes "body_tools body = Some tools"
    and "t \<in> set tools"
    and "tool_type t = Some ''web_search_20250305''"
  shows "fst (router body) = ''antigravity-websearch,gemini-2.5-flash''
         \<and> body_isWebSearch (snd (router body))"
proof -
  have "list_ex (\<lambda>t. tool_type t = Some ''web_search_20250305'') tools"
    using assms(2,3) by (auto simp: list_ex_iff)
  then show ?thesis
    using assms(1) by (simp add: router_def)
qed

theorem router_web_search_witness:
  "(let ping = \<lparr>tool_type = None, tool_name = Some ''ping'', tool_description = None,
                 tool_input_schema = None, tool_parameters = None, tool_function = None\<rparr>;
        search = \<lparr>tool_type = Some ''web_search_20250305'', tool_name = Some ''web_search'',
                   tool_description = None, tool_input_schema = None,
                   tool_parameters = None, tool_function = None\<rparr>;
        body = \<lparr>body_tools = Some [ping, search],
                 body_model = Some ''claude-opus-4-5-20251101'', body_thinking = True,
                 body_isWebSearch = False, body_originalModel = None\<rparr>
    in body_tools body = Some [ping, search] \<and> search \<in> set [ping, search]
       \<and> tool_type search = Some ''web_search_20250305''
       \<and> fst (router body) = ''antigravity-websearch,gemini-2.5-flash''
       \<and> body_isWebSearch (snd (router body)))"
  using router_web_search
    [of "\<lparr>body_tools =
             Some [\<lparr>tool_type = None, tool_name = Some ''ping'', tool_description = None,
                    tool_input_schema = None, tool_parameters = None, tool_function = None\<rparr>,
                   \<lparr>tool_type = Some ''web_search_20250305'', tool_name = Some ''web_search'',
                    tool_description = None, tool_input_schema = None,
                    tool_parameters = None, tool_function = None\<rparr>],
           body_model = Some ''claude-opus-4-5-20251101'', body_thinking = True,
           body_isWebSearch = False, body_originalModel = None\<rparr>"
        "[\<lparr>tool_type = None, tool_name = Some ''ping'', tool_description = None,
           tool_input_schema = None, tool_parameters = None, tool_function = None\<rparr>,
          \<lparr>tool_type = Some ''web_search_20250305'', tool_name = Some ''web_search'',
           tool_description = None, tool_input_schema = None,
           tool_parameters = None, tool_function = None\<rparr>]"
        "\<lparr>tool_type = Some ''web_search_20250305'', tool_name = Some ''web_search'',
          tool_description = None, tool_input_schema = None,
          tool_parameters = None, tool_function = None\<rparr>"]
  by (simp add: Let_def)

section \<open>Properties of the token managers\<close>










text \<open>
  C6, as stated: with no refresh token in the loaded credentials the token acquisition
  fails and never starts an interactive login. The Gemini interceptor that uses the Google
  auth library starts \<^verbatim>\<open>runLoginFlow\<close> in exactly that case.
\<close>

theorem login_flow_counterexample:
  "getFreshAccessToken_lib \<lparr>cachedAccessToken = None, tokenExpiryTime = 0\<rparr>
     (Some \<lparr>client_id = ''id'', client_secret = ''secret'', refresh_token = None,
            access_token = None, token_expiry = None, expiry_date = None\<rparr>) 2000
   = RunLoginFlow"
  by code_simp

text \<open>
  C6, amended: when the loaded credentials contain no refresh token, the Antigravity
  transformer's \<^verbatim>\<open>getFreshAccessToken\<close> throws an error (\<^verbatim>\<open>No refresh token found\<close>)
  without sending a refresh request, \<^verbatim>\<open>transformRequestIn\<close> fails with that error, and
  the pure-API Gemini interceptor's \<^verbatim>\<open>getFreshAccessToken\<close> returns \<^verbatim>\<open>null\<close>; neither
  starts a login flow.
\<close>

theorem no_refresh_token_no_login:
  assumes "stored = Some c"
    and "\<not> truthyStr (refresh_token c)"
    and "\<not> cacheFresh cache now"
  shows "getFreshAccessToken stored now = Throw noRefreshTokenMessage
         \<and> transformRequestIn parse stored now answered reply logged request
             = Inl (Error noRefreshTokenMessage)
         \<and> inFlight (manager_step \<lparr>credentialsFile = stored, inFlight = posts\<rparr> (Invoke now))
             = posts
         \<and> getFreshAccessToken_api cache stored now = Return None"
  using assms
  by (simp add: getFreshAccessToken_def transformRequestIn_def awaitToken_def
      getFreshAccessToken_api_def)

theorem no_refresh_token_no_login_witness:
  "(let c = \<lparr>client_id = ''id'', client_secret = ''secret'', refresh_token = None,
              access_token = Some ''old'', token_expiry = Some 1000000, expiry_date = None\<rparr>;
        cache = \<lparr>cachedAccessToken = None, tokenExpiryTime = 0\<rparr>
    in \<not> truthyStr (refresh_token c) \<and> \<not> cacheFresh cache 2000
       \<and> getFreshAccessToken (Some c) 2000 = Throw noRefreshTokenMessage
       \<and> transformRequestIn (\<lambda>s. None) (Some c) 2000 2500 UnparsableReply None
            \<lparr>req_messages = [], req_tools = None\<rparr>
           = Inl (Error noRefreshTokenMessage)
       \<and> inFlight (manager_step \<lparr>credentialsFile = Some c, inFlight = []\<rparr> (Invoke 2000)) = []
       \<and> getFreshAccessToken_api cache (Some c) 2000 = Return None)"
proof -
  define c where "c = \<lparr>client_id = ''id'', client_secret = ''secret'',
    refresh_token = (None::string option), access_token = Some ''old'',
    token_expiry = Some (1000000::int), expiry_date = (None::int option)\<rparr>"
  define cache where "cache = \<lparr>cachedAccessToken = None, tokenExpiryTime = 0\<rparr>"
  have h2: "\<not> truthyStr (refresh_token c)" by (simp add: c_def truthyStr_def)
  have h3: "\<not> cacheFresh cache 2000" by (simp add: cache_def cacheFresh_def truthyStr_def)
  show ?thesis
    using no_refresh_token_no_login [OF refl h2 h3, of "\<lambda>s. None" 2500 UnparsableReply
        None "\<lparr>req_messages = [], req_tools = None\<rparr>" "[]"] h2 h3
    unfolding Let_def c_def cache_def by simp
qed

section \<open>Properties of the emitted contents\<close>

lemma wellPaired_iff:
  "wellPaired trs cs \<longleftrightarrow>
     (\<forall>i < length cs. needsAnswer (cs ! i)
        \<longrightarrow> Suc i < length cs \<and> answeredBy trs (cs ! i) (cs ! Suc i))"
  by (auto simp: wellPaired_def list_all_iff)

lemma wellPaired_append:
  assumes "wellPaired trs xs" "wellPaired trs ys"
  shows "wellPaired trs (xs @ ys)"
  unfolding wellPaired_iff
proof (intro allI impI)
  fix i
  assume i: "i < length (xs @ ys)" and need: "needsAnswer ((xs @ ys) ! i)"
  show "Suc i < length (xs @ ys) \<and> answeredBy trs ((xs @ ys) ! i) ((xs @ ys) ! Suc i)"
  proof (cases "i < length xs")
    case True
    then have "needsAnswer (xs ! i)" using need by (simp add: nth_append)
    with assms(1) True have "Suc i < length xs" "answeredBy trs (xs ! i) (xs ! Suc i)"
      by (auto simp: wellPaired_iff)
    then show ?thesis using True by (simp add: nth_append)
  next
    case False
    define j where "j = i - length xs"
    have j: "j < length ys" "i = length xs + j" using False i by (auto simp: j_def)
    then have "needsAnswer (ys ! j)" using need by (simp add: nth_append)
    with assms(2) j have "Suc j < length ys" "answeredBy trs (ys ! j) (ys ! Suc j)"
      by (auto simp: wellPaired_iff)
    then show ?thesis using j by (simp add: nth_append)
  qed
qed

lemma itemParts_no_call:
  "itemParts items = Inr ps \<Longrightarrow> \<forall>p \<in> set ps. \<not> isFunctionCall p"
  by (induction items arbitrary: ps) (auto split: if_splits sum.splits option.splits)

lemma contentParts_no_call:
  "contentParts m = Inr ps \<Longrightarrow> \<forall>p \<in> set ps. \<not> isFunctionCall p"
  by (auto simp: contentParts_def split: message_content.splits if_splits
      dest: itemParts_no_call)

lemma toolCallParts_calls:
  "toolCallParts parse sig i calls = Inr ps \<Longrightarrow> \<forall>p \<in> set ps. isFunctionCall p"
  by (induction calls arbitrary: ps i) (auto split: option.splits sum.splits)

lemma toolCallParts_emitted:
  "toolCallParts parse sig i calls = Inr ps \<Longrightarrow> list_all2 (emittedFor parse) calls ps"
  by (induction calls arbitrary: ps i) (auto split: option.splits sum.splits)

lemma sameId_received:
  "truthyStr received \<Longrightarrow> sameId (idOr received prefix) received"
  by (cases received) (auto simp: truthyStr_def idOr_def)

lemma toolCallParts_answered:
  "toolCallParts parse sig i calls = Inr ps \<Longrightarrow> list_all (\<lambda>t. truthyStr (tc_id t)) calls \<Longrightarrow>
   list_all2 (answers trs) ps (map (functionResponse trs) calls)"
proof (induction calls arbitrary: ps i)
  case Nil
  then show ?case by simp
next
  case (Cons t calls)
  then show ?case
    by (auto simp: functionResponse_def sameId_received split: option.splits sum.splits)
qed

lemma toolCallParts_length:
  "toolCallParts parse sig i calls = Inr ps \<Longrightarrow> length ps = length calls"
  by (induction calls arbitrary: ps i) (auto split: option.splits sum.splits)

text \<open>
  What an assistant message with tool calls adds to the contents: one model content, whose
  functionCall parts are the ones made from its tool calls, in order, and then one user
  content with one functionResponse per tool call, in order.
\<close>

lemma messageContents_assistant:
  assumes "messageContents parse trs m = Inr cs"
    and "msg_role m = ''assistant''"
    and "msg_tool_calls m = Some calls" and "calls \<noteq> []"
  shows "\<exists>ps. cs = [\<lparr>content_role = ''model'', content_parts = ps\<rparr>,
                     \<lparr>content_role = ''user'',
                      content_parts = map (functionResponse trs) calls\<rparr>]
              \<and> list_all2 (emittedFor parse) calls (filter isFunctionCall ps)"
proof -
  from assms(1,2,3) obtain textParts callParts where
    tp: "contentParts m = Inr textParts" and
    tc: "toolCallParts parse (signatureOf m) 0 calls = Inr callParts" and
    cs: "cs = (if textParts @ callParts = [] then []
               else [\<lparr>content_role = ''model'', content_parts = textParts @ callParts\<rparr>])
              @ (if calls \<noteq> [] then
                   [\<lparr>content_role = ''user'',
                     content_parts = map (functionResponse trs) calls\<rparr>]
                 else [])"
    by (auto simp: messageContents_def Let_def split: sum.splits)
  have nocall: "\<forall>p \<in> set textParts. \<not> isFunctionCall p"
    using contentParts_no_call [OF tp] .
  have filt: "filter isFunctionCall (textParts @ callParts) = callParts"
    using nocall toolCallParts_calls [OF tc] by (simp add: filter_empty_conv)
  have "callParts \<noteq> []"
    using toolCallParts_length [OF tc] assms(4) by auto
  with cs assms(4)
  have "cs = [\<lparr>content_role = ''model'', content_parts = textParts @ callParts\<rparr>,
              \<lparr>content_role = ''user'', content_parts = map (functionResponse trs) calls\<rparr>]"
    by simp
  moreover have "list_all2 (emittedFor parse) calls
                   (filter isFunctionCall (textParts @ callParts))"
    unfolding filt by (rule toolCallParts_emitted [OF tc])
  ultimately show ?thesis by blast
qed

lemma messageContents_wellPaired:
  assumes "messageContents parse trs m = Inr cs"
    and ids: "msg_role m = ''assistant'' \<longrightarrow> callsHaveIds m"
  shows "wellPaired trs cs"
proof (cases "msg_role m = ''system''")
  case True
  with assms show ?thesis by (simp add: messageContents_def wellPaired_iff)
next
  case False
  from assms(1) False obtain textParts callParts where
    tp: "contentParts m = Inr textParts" and
    cp: "(case msg_tool_calls m of
            None \<Rightarrow> Inr []
          | Some calls \<Rightarrow> toolCallParts parse (signatureOf m) 0 calls) = Inr callParts" and
    cs: "cs = (if textParts @ callParts = [] then []
               else [\<lparr>content_role = (if msg_role m = ''assistant'' then ''model'' else ''user''),
                      content_parts = textParts @ callParts\<rparr>])
              @ (case msg_tool_calls m of
                   None \<Rightarrow> []
                 | Some calls \<Rightarrow>
                     if (if msg_role m = ''assistant'' then ''model'' else ''user'') = ''model''
                        \<and> calls \<noteq> [] then
                       [\<lparr>content_role = ''user'',
                         content_parts = map (functionResponse trs) calls\<rparr>]
                     else [])"
    by (auto simp: messageContents_def Let_def split: sum.splits)
  have nocall: "\<forall>p \<in> set textParts. \<not> isFunctionCall p"
    using contentParts_no_call [OF tp] .
  show ?thesis
  proof (cases "msg_tool_calls m")
    case None
    with cp have "callParts = []" by simp
    with cs None nocall show ?thesis
      by (auto simp: wellPaired_iff needsAnswer_def list_ex_iff)
  next
    case (Some calls)
    with cp have tc: "toolCallParts parse (signatureOf m) 0 calls = Inr callParts" by simp
    note len = toolCallParts_length [OF tc]
    have filt: "filter isFunctionCall (textParts @ callParts) = callParts"
      using nocall toolCallParts_calls [OF tc] by (simp add: filter_empty_conv)
    show ?thesis
    proof (cases "calls = []")
      case True
      with len have "callParts = []" by simp
      with cs Some True nocall show ?thesis
        by (auto simp: wellPaired_iff needsAnswer_def list_ex_iff)
    next
      case nonempty: False
      with len have ne: "callParts \<noteq> []" by auto
      show ?thesis
      proof (cases "msg_role m = ''assistant''")
        case True
        with ids Some have "list_all (\<lambda>t. truthyStr (tc_id t)) calls"
          by (simp add: callsHaveIds_def toolCallsOf_def)
        note ans = toolCallParts_answered [OF tc this, of trs]
        from True cs Some nonempty ne
        have "cs = [\<lparr>content_role = ''model'', content_parts = textParts @ callParts\<rparr>,
                    \<lparr>content_role = ''user'',
                     content_parts = map (functionResponse trs) calls\<rparr>]"
          by simp
        then show ?thesis using filt ans
          by (auto simp: wellPaired_iff needsAnswer_def answeredBy_def less_Suc_eq)
      next
        case notassistant: False
        with cs Some nonempty ne
        have "cs = [\<lparr>content_role = ''user'', content_parts = textParts @ callParts\<rparr>]"
          by simp
        then show ?thesis by (auto simp: wellPaired_iff needsAnswer_def)
      qed
    qed
  qed
qed

lemma contentsOf_wellPaired:
  "contentsOf parse trs ms = Inr cs
   \<Longrightarrow> \<forall>m \<in> set ms. msg_role m = ''assistant'' \<longrightarrow> callsHaveIds m
   \<Longrightarrow> wellPaired trs cs"
proof (induction ms arbitrary: cs)
  case Nil
  then show ?case by (simp add: wellPaired_iff)
next
  case (Cons m ms)
  from Cons.prems(1) obtain xs ys where
    parts: "messageContents parse trs m = Inr xs" "contentsOf parse trs ms = Inr ys"
      "cs = xs @ ys"
    by (auto split: sum.splits)
  have "wellPaired trs xs"
    using messageContents_wellPaired [OF parts(1)] Cons.prems(2) by simp
  moreover have "wellPaired trs ys"
    using Cons.IH [OF parts(2)] Cons.prems(2) by simp
  ultimately show ?case
    using parts(3) wellPaired_append by blast
qed

lemma contentsOf_split:
  "contentsOf parse trs ms = Inr cs \<Longrightarrow> m \<in> set ms
   \<Longrightarrow> \<exists>before xs after. messageContents parse trs m = Inr xs \<and> cs = before @ xs @ after"
proof (induction ms arbitrary: cs)
  case Nil
  then show ?case by simp
next
  case (Cons a ms)
  from Cons.prems(1) obtain xs ys where
    parts: "messageContents parse trs a = Inr xs" "contentsOf parse trs ms = Inr ys"
      "cs = xs @ ys"
    by (auto split: sum.splits)
  show ?case
  proof (cases "m = a")
    case True
    with parts have "messageContents parse trs m = Inr xs \<and> cs = [] @ xs @ ys" by simp
    then show ?thesis by blast
  next
    case False
    with Cons.prems(2) have "m \<in> set ms" by simp
    from Cons.IH [OF parts(2) this] obtain before zs after where
      "messageContents parse trs m = Inr zs" "ys = before @ zs @ after"
      by blast
    with parts(3) have "messageContents parse trs m = Inr zs
        \<and> cs = (xs @ before) @ zs @ after"
      by simp
    then show ?thesis by blast
  qed
qed

text \<open>
  No tool call is lost: whenever the request transformer returns an envelope, every
  assistant message of the request that has tool calls appears in the contents as a model
  content whose functionCall parts are the ones made from its tool calls, in order,
  immediately followed by a user content that holds one functionResponse per tool call, in
  order, and nothing else. The response of a tool call that no tool message answers is
  emitted all the same, with the output \<^verbatim>\<open>undefined\<close>.
\<close>

lemma toolCalls_emitted:
  assumes "transformRequestIn parse stored now answered reply logged request = Inr out"
    and "m \<in> set (req_messages request)"
    and "msg_role m = ''assistant''"
    and "msg_tool_calls m = Some calls" and "calls \<noteq> []"
  shows "\<exists>i. Suc i < length (up_contents out)
           \<and> content_role (up_contents out ! i) = ''model''
           \<and> list_all2 (emittedFor parse) calls
                 (filter isFunctionCall (content_parts (up_contents out ! i)))
           \<and> up_contents out ! Suc i
               = \<lparr>content_role = ''user'',
                  content_parts =
                    map (functionResponse
                           (filter (\<lambda>m. msg_role m = ''tool'') (req_messages request))) calls\<rparr>"
proof -
  let ?trs = "filter (\<lambda>m. msg_role m = ''tool'') (req_messages request)"
  from assms(1) have built: "contentsOf parse ?trs
      (filter (\<lambda>m. msg_role m \<noteq> ''tool'') (req_messages request)) = Inr (up_contents out)"
    by (auto simp: transformRequestIn_def buildContents_def split: sum.splits option.splits)
  have "m \<in> set (filter (\<lambda>m. msg_role m \<noteq> ''tool'') (req_messages request))"
    using assms(2,3) by simp
  from contentsOf_split [OF built this] obtain before xs after where
    xs: "messageContents parse ?trs m = Inr xs" and
    cs: "up_contents out = before @ xs @ after"
    by blast
  from messageContents_assistant [OF xs assms(3,4,5)] obtain ps where
    two: "xs = [\<lparr>content_role = ''model'', content_parts = ps\<rparr>,
                \<lparr>content_role = ''user'', content_parts = map (functionResponse ?trs) calls\<rparr>]"
    and emitted: "list_all2 (emittedFor parse) calls (filter isFunctionCall ps)"
    by blast
  have "Suc (length before) < length (up_contents out)"
    and "up_contents out ! length before = \<lparr>content_role = ''model'', content_parts = ps\<rparr>"
    and "up_contents out ! Suc (length before)
         = \<lparr>content_role = ''user'', content_parts = map (functionResponse ?trs) calls\<rparr>"
    using cs two by (simp_all add: nth_append)
  with emitted show ?thesis by (intro exI [of _ "length before"]) simp
qed

text \<open>
  When every tool call of the assistant messages came with an id, the pairing holds as
  stated: whenever content \<open>i\<close> of the emitted \<^verbatim>\<open>contents\<close> is a model-role content
  with functionCall parts, content \<open>i + 1\<close> exists, is a user-role content, and its parts
  are, in the same order, one functionResponse for each functionCall part of content \<open>i\<close>
  and nothing else, each with the id and the name of its call and with the content of the
  first tool-role message that has that \<^verbatim>\<open>tool_call_id\<close> (\<^verbatim>\<open>undefined\<close> when there is
  none).
\<close>

lemma functionCalls_answered:
  assumes "transformRequestIn parse stored now answered reply logged request = Inr out"
    and "\<forall>m \<in> set (req_messages request). msg_role m = ''assistant'' \<longrightarrow> callsHaveIds m"
    and "i < length (up_contents out)"
    and "content_role (up_contents out ! i) = ''model''"
    and "list_ex isFunctionCall (content_parts (up_contents out ! i))"
  shows "Suc i < length (up_contents out)
         \<and> content_role (up_contents out ! Suc i) = ''user''
         \<and> list_all2 (answers (filter (\<lambda>m. msg_role m = ''tool'') (req_messages request)))
              (filter isFunctionCall (content_parts (up_contents out ! i)))
              (content_parts (up_contents out ! Suc i))"
proof -
  from assms(1) have built: "contentsOf parse
      (filter (\<lambda>m. msg_role m = ''tool'') (req_messages request))
      (filter (\<lambda>m. msg_role m \<noteq> ''tool'') (req_messages request)) = Inr (up_contents out)"
    by (auto simp: transformRequestIn_def buildContents_def split: sum.splits option.splits)
  have "\<forall>m \<in> set (filter (\<lambda>m. msg_role m \<noteq> ''tool'') (req_messages request)).
          msg_role m = ''assistant'' \<longrightarrow> callsHaveIds m"
    using assms(2) by simp
  from contentsOf_wellPaired [OF built this]
  have "wellPaired (filter (\<lambda>m. msg_role m = ''tool'') (req_messages request))
               (up_contents out)" .
  with assms(3-5) show ?thesis
    by (simp add: wellPaired_iff needsAnswer_def answeredBy_def)
qed

lemma functionCalls_answered_example:
  "transformRequestIn exampleParse (Some exampleCredentials) 400000 400000 UnparsableReply
     None exampleRequest = Inr exampleEnvelope
   \<and> list_all2 (answers (filter (\<lambda>m. msg_role m = ''tool'') (req_messages exampleRequest)))
        (filter isFunctionCall (content_parts (up_contents exampleEnvelope ! 1)))
        (content_parts (up_contents exampleEnvelope ! Suc 1))"
proof -
  have h1: "transformRequestIn exampleParse (Some exampleCredentials) 400000 400000
              UnparsableReply None exampleRequest = Inr exampleEnvelope"
    by code_simp
  have h2: "\<forall>m \<in> set (req_messages exampleRequest).
              msg_role m = ''assistant'' \<longrightarrow> callsHaveIds m"
    by (simp add: exampleRequest_def callsHaveIds_def toolCallsOf_def truthyStr_def)
  have h3: "1 < length (up_contents exampleEnvelope)"
    by (simp add: exampleEnvelope_def)
  have h4: "content_role (up_contents exampleEnvelope ! 1) = ''model''"
    by (simp add: exampleEnvelope_def)
  have h5: "list_ex isFunctionCall (content_parts (up_contents exampleEnvelope ! 1))"
    by (simp add: exampleEnvelope_def)
  show ?thesis
    using functionCalls_answered [OF h1 h2 h3 h4 h5] h1 by simp
qed

text \<open>
  C5. Every functionCall of a model content is stated to be followed by its
  functionResponse, paired by id. A tool call that arrives without an id gets a generated
  id on its functionCall (\<^verbatim>\<open>toolCall.id || `tool_...`\<close>), but its functionResponse is
  built from \<^verbatim>\<open>tool.id\<close> alone and has no id: the response emitted after the call does
  not bear the call's id.
\<close>

theorem functionResponse_without_call_id:
  "transformRequestIn exampleParse (Some exampleCredentials) 400000 400000 UnparsableReply
     None idlessRequest = Inr idlessEnvelope
   \<and> up_contents idlessEnvelope ! 1
       = \<lparr>content_role = ''model'',
          content_parts =
            [FunctionCall
               \<lparr>fc_id = Generated ''tool_'', fc_name = Some ''ls'', fc_args = JObj []\<rparr> None]\<rparr>
   \<and> up_contents idlessEnvelope ! 2
       = \<lparr>content_role = ''user'',
          content_parts =
            [FunctionResponse \<lparr>fr_id = None, fr_name = Some ''ls'',
                               fr_output = ContentString ''a.txt''\<rparr>]\<rparr>
   \<and> \<not> list_all2 (answers (filter (\<lambda>m. msg_role m = ''tool'') (req_messages idlessRequest)))
          (filter isFunctionCall (content_parts (up_contents idlessEnvelope ! 1)))
          (content_parts (up_contents idlessEnvelope ! 2))"
proof -
  have "transformRequestIn exampleParse (Some exampleCredentials) 400000 400000
          UnparsableReply None idlessRequest = Inr idlessEnvelope"
    by code_simp
  then show ?thesis
    by (simp add: idlessEnvelope_def idlessRequest_def)
qed

section \<open>Properties of the whole-body JSON transformation\<close>

lemma toolCalls_for:
  "list_all2 toolCallFor (filter hasFunctionCall ps)
     (concat (map toolCallOut (filter hasFunctionCall ps)))"
  by (induction ps) (auto simp: hasFunctionCall_def toolCallOut_def toolCallFor_def)

lemma filter_text_nonthinking:
  "filter isTextPart (filter (\<lambda>p. \<not> isThinkingPart p) ps) = filter isTextPart ps"
  by (induction ps) (auto simp: isTextPart_def isThinkingPart_def)

lemma findSignature_None:
  "findSignature ps = None \<longleftrightarrow> \<not> list_ex hasSignature ps"
proof (induction ps)
  case Nil
  then show ?case by (simp add: findSignature_def)
next
  case (Cons p ps)
  then show ?case
    by (auto simp: findSignature_def hasSignature_def truthyStr_def split: option.splits)
qed

lemma transformJsonResponse_unfold:
  assumes "response data = Some r" and "candidates r = c # others"
  shows "transformJsonResponse defaultModel now data requestedModel
     = ChatCompletion
         \<lparr>ur_id = responseId r,
          ur_finish_reason = toLowerCase (strOr (finishReason c) ''stop''),
          ur_content =
            join [CHR 0x0A]
              (map textOf (filter isTextPart (filter (\<lambda>p. \<not> isThinkingPart p) (partsOf c)))),
          ur_tool_calls =
            (if concat (map toolCallOut (filter hasFunctionCall
                  (filter (\<lambda>p. \<not> isThinkingPart p) (partsOf c)))) = [] then None
             else Some (concat (map toolCallOut (filter hasFunctionCall
                  (filter (\<lambda>p. \<not> isThinkingPart p) (partsOf c)))))),
          ur_thinking =
            (case findSignature (partsOf c) of
               None \<Rightarrow> None
             | Some sig \<Rightarrow>
                 Some \<lparr>th_content =
                        (if concat (map textOf (filter isThinkingPart (partsOf c))) = []
                         then ''(no content)''
                         else concat (map textOf (filter isThinkingPart (partsOf c)))),
                       th_signature = sig\<rparr>),
          ur_created = now div 1000,
          ur_model = (if requestedModel = [] then defaultModel else requestedModel),
          ur_completion_tokens = usageCount (usageMetadata r) candidatesTokenCount,
          ur_prompt_tokens = usageCount (usageMetadata r) promptTokenCount,
          ur_total_tokens = usageCount (usageMetadata r) totalTokenCount\<rparr>"
  by (simp only: transformJsonResponse_def Let_def assms option.case list.case)

text \<open>
  For a reply that has a \<^verbatim>\<open>response\<close> field with at least one candidate, the
  transformer emits one chat completion in which \<^verbatim>\<open>finish_reason\<close> is the lower-cased
  \<^verbatim>\<open>finishReason\<close> of the first candidate (\<^verbatim>\<open>stop\<close> when absent); the content is its
  non-thought text parts joined with newlines; the thinking text, present when a signature
  is found, is the concatenation of its thought texts; each part with a functionCall among
  the parts that are not thought texts becomes one tool call, in order, with a generated
  id when the upstream sent none (and \<^verbatim>\<open>tool_calls\<close> is absent rather than empty); the
  model is the \<^verbatim>\<open>requestedModel\<close> argument (the configured default when it is empty);
  and the three usage counts are mapped, 0 when absent.
\<close>

lemma transformJsonResponse_wrapped:
  assumes "response data = Some r" and "candidates r = c # others"
  shows "\<exists>u. transformJsonResponse defaultModel now data requestedModel = ChatCompletion u
           \<and> ur_finish_reason u = toLowerCase (strOr (finishReason c) ''stop'')
           \<and> ur_content u = join [CHR 0x0A] (map textOf (filter isTextPart (partsOf c)))
           \<and> ur_thinking u =
               (case findSignature (partsOf c) of
                  None \<Rightarrow> None
                | Some sig \<Rightarrow>
                    Some \<lparr>th_content =
                           (if concat (map textOf (filter isThinkingPart (partsOf c))) = []
                            then ''(no content)''
                            else concat (map textOf (filter isThinkingPart (partsOf c)))),
                          th_signature = sig\<rparr>)
           \<and> list_all2 toolCallFor
               (filter hasFunctionCall (filter (\<lambda>p. \<not> isThinkingPart p) (partsOf c)))
               (case ur_tool_calls u of None \<Rightarrow> [] | Some calls \<Rightarrow> calls)
           \<and> ur_tool_calls u \<noteq> Some []
           \<and> ur_model u = (if requestedModel = [] then defaultModel else requestedModel)
           \<and> ur_prompt_tokens u = usageCount (usageMetadata r) promptTokenCount
           \<and> ur_completion_tokens u = usageCount (usageMetadata r) candidatesTokenCount
           \<and> ur_total_tokens u = usageCount (usageMetadata r) totalTokenCount"
proof -
  define calls where
    "calls = concat (map toolCallOut
       (filter hasFunctionCall (filter (\<lambda>p. \<not> isThinkingPart p) (partsOf c))))"
  have calls: "list_all2 toolCallFor
      (filter hasFunctionCall (filter (\<lambda>p. \<not> isThinkingPart p) (partsOf c))) calls"
    unfolding calls_def by (rule toolCalls_for)
  have paired: "list_all2 toolCallFor
      (filter hasFunctionCall (filter (\<lambda>p. \<not> isThinkingPart p) (partsOf c)))
      (case (if calls = [] then None else Some calls) of None \<Rightarrow> [] | Some cs \<Rightarrow> cs)"
    using calls by (cases "calls = []") simp_all
  have nonempty: "(if calls = [] then None else Some calls) \<noteq> Some []"
    by simp
  show ?thesis
    unfolding transformJsonResponse_unfold [OF assms] calls_def [symmetric]
      filter_text_nonthinking
    apply (intro exI conjI)
             apply (rule refl)
    using paired nonempty apply (simp_all del: filter_filter)
    done
qed

lemma transformJsonResponse_wrapped_example:
  "response (wrappedReply [exThought, exText, exText2, exSignature, exCall])
     = Some (examplePayload [exThought, exText, exText2, exSignature, exCall])
   \<and> candidates (examplePayload [exThought, exText, exText2, exSignature, exCall])
       = exampleCandidate [exThought, exText, exText2, exSignature, exCall] # []
   \<and> transformJsonResponse ''claude-sonnet-4-5-20250514'' 1700000000000
        (wrappedReply [exThought, exText, exText2, exSignature, exCall])
        ''claude-opus-4-5-20251101''
       = ChatCompletion
           (exampleCompletion (''The answer'' @ [CHR 0x0A] @ ''is 42'')
              (Some [\<lparr>tco_id = Generated ''tool_'', tco_name = Some ''ls'',
                      tco_arguments = JObj []\<rparr>])
              (Some \<lparr>th_content = ''Hello!'', th_signature = ''sig_abc''\<rparr>))
   \<and> (\<exists>u. transformJsonResponse ''claude-sonnet-4-5-20250514'' 1700000000000
             (wrappedReply [exThought, exText, exText2, exSignature, exCall])
             ''claude-opus-4-5-20251101'' = ChatCompletion u
           \<and> ur_finish_reason u = ''stop''
           \<and> ur_content u = ''The answer'' @ [CHR 0x0A] @ ''is 42''
           \<and> ur_model u = ''claude-opus-4-5-20251101''
           \<and> ur_prompt_tokens u = 100 \<and> ur_completion_tokens u = 50
           \<and> ur_total_tokens u = 150)"
proof -
  let ?ps = "[exThought, exText, exText2, exSignature, exCall]"
  have h1: "response (wrappedReply ?ps) = Some (examplePayload ?ps)"
    by (simp add: wrappedReply_def)
  have h2: "candidates (examplePayload ?ps) = exampleCandidate ?ps # []"
    by (simp add: examplePayload_def)
  have eval: "transformJsonResponse ''claude-sonnet-4-5-20250514'' 1700000000000
        (wrappedReply ?ps) ''claude-opus-4-5-20251101''
       = ChatCompletion
           (exampleCompletion (''The answer'' @ [CHR 0x0A] @ ''is 42'')
              (Some [\<lparr>tco_id = Generated ''tool_'', tco_name = Some ''ls'',
                      tco_arguments = JObj []\<rparr>])
              (Some \<lparr>th_content = ''Hello!'', th_signature = ''sig_abc''\<rparr>))"
    by code_simp
  have lowered: "toLowerCase (strOr (finishReason (exampleCandidate ?ps)) ''stop'') = ''stop''"
    by code_simp
  have joined: "join [CHR 0x0A] (map textOf (filter isTextPart (partsOf (exampleCandidate ?ps))))
             = ''The answer'' @ [CHR 0x0A] @ ''is 42''"
    by code_simp
  have counts: "usageCount (usageMetadata (examplePayload ?ps)) promptTokenCount = 100"
    "usageCount (usageMetadata (examplePayload ?ps)) candidatesTokenCount = 50"
    "usageCount (usageMetadata (examplePayload ?ps)) totalTokenCount = 150"
    by (simp_all add: examplePayload_def usageCount_def numOrZero_def)
  from transformJsonResponse_wrapped [OF h1 h2, of "''claude-sonnet-4-5-20250514''"
      1700000000000 "''claude-opus-4-5-20251101''"]
  obtain u where u: "transformJsonResponse ''claude-sonnet-4-5-20250514'' 1700000000000
        (wrappedReply ?ps) ''claude-opus-4-5-20251101'' = ChatCompletion u"
    "ur_finish_reason u = ''stop''"
    "ur_content u = ''The answer'' @ [CHR 0x0A] @ ''is 42''"
    "ur_model u = ''claude-opus-4-5-20251101''"
    "ur_prompt_tokens u = 100" "ur_completion_tokens u = 50" "ur_total_tokens u = 150"
    unfolding lowered joined counts by auto
  then have "\<exists>u. transformJsonResponse ''claude-sonnet-4-5-20250514'' 1700000000000
             (wrappedReply ?ps) ''claude-opus-4-5-20251101'' = ChatCompletion u
           \<and> ur_finish_reason u = ''stop''
           \<and> ur_content u = ''The answer'' @ [CHR 0x0A] @ ''is 42''
           \<and> ur_model u = ''claude-opus-4-5-20251101''
           \<and> ur_prompt_tokens u = 100 \<and> ur_completion_tokens u = 50
           \<and> ur_total_tokens u = 150"
    by blast
  with h1 h2 eval show ?thesis by blast
qed

text \<open>
  C8. Every non-streaming JSON reply with a candidate is stated to become a chat
  completion. A reply that carries its candidates at top level, without the
  \<^verbatim>\<open>response\<close> wrapper, is not transformed: \<^verbatim>\<open>transformJsonResponse\<close> returns the
  response it was given, whose body \<^verbatim>\<open>response.json()\<close> has already read. The stream
  transformer unwraps the same reply (\<^verbatim>\<open>chunk.response || chunk\<close>) and transforms it.
\<close>

theorem bare_reply_not_transformed:
  "candidates (bare (bareReply [exText])) = [exampleCandidate [exText]]
   \<and> transformJsonResponse ''claude-sonnet-4-5-20250514'' 1700000000000 (bareReply [exText])
        ''claude-opus-4-5-20251101'' = Relay
   \<and> transformResponseOut exampleParseBare ''claude-sonnet-4-5-20250514'' 1700000000000
        \<lparr>resp_status = 200, resp_statusText = ''OK'',
         resp_headers = [(''Content-Type'', ''application/json; charset=UTF-8'')],
         resp_body = Some [bareReplyText], resp_bodyUsed = False\<rparr>
        \<lparr>ctx_requestModel = Some ''claude-opus-4-5-20251101'', ctx_isWebSearch = False\<rparr>
       = Inr (Relayed
                \<lparr>resp_status = 200, resp_statusText = ''OK'',
                 resp_headers = [(''Content-Type'', ''application/json; charset=UTF-8'')],
                 resp_body = Some [bareReplyText], resp_bodyUsed = True\<rparr>)
   \<and> enqueued (handleChunk ''claude-opus-4-5-20251101'' initialState (bareReply [exText]))
       = [MessageStart (Given ''resp_123'') ''claude-opus-4-5-20251101'',
          ContentBlockStart 0 TextBlock,
          ContentBlockDelta 0 (TextDelta ''The answer''),
          ContentBlockStop 0,
          MessageDelta (Some 100) 50,
          MessageStop]"
  by code_simp

text \<open>
  C10. For a wrapped reply with a first candidate, the emitted message has a
  \<^verbatim>\<open>thinking\<close> field exactly when some part of the candidate carries a (non-empty)
  \<^verbatim>\<open>thoughtSignature\<close>. When no part carries one, the thought texts leave no trace: the
  output is the one the reply gives with its thought parts removed. When a part carries
  one and there is no thought text, the thinking content is \<^verbatim>\<open>(no content)\<close>.
\<close>

theorem thinking_iff_signature:
  assumes "response data = Some r" and "candidates r = c # others"
    and "transformJsonResponse defaultModel now data requestedModel = ChatCompletion u"
  shows "(ur_thinking u \<noteq> None \<longleftrightarrow> list_ex hasSignature (partsOf c))
         \<and> (\<not> list_ex hasSignature (partsOf c) \<longrightarrow>
              transformJsonResponse defaultModel now
                (data\<lparr>response :=
                   Some (r\<lparr>candidates :=
                     c\<lparr>cand_parts := Some (filter (\<lambda>p. \<not> isThinkingPart p) (partsOf c))\<rparr>
                     # others\<rparr>)\<rparr>)
                requestedModel = ChatCompletion u)
         \<and> (list_ex hasSignature (partsOf c) \<and> \<not> list_ex isThinkingPart (partsOf c) \<longrightarrow>
              map_option th_content (ur_thinking u) = Some ''(no content)'')"
proof -
  let ?kept = "filter (\<lambda>p. \<not> isThinkingPart p) (partsOf c)"
  let ?c' = "c\<lparr>cand_parts := Some ?kept\<rparr>"
  let ?r' = "r\<lparr>candidates := ?c' # others\<rparr>"
  let ?data' = "data\<lparr>response := Some ?r'\<rparr>"
  note u = assms(3) [unfolded transformJsonResponse_unfold [OF assms(1,2)] json_outcome.inject]
  have thinking: "ur_thinking u =
      (case findSignature (partsOf c) of
         None \<Rightarrow> None
       | Some sig \<Rightarrow>
           Some \<lparr>th_content =
                  (if concat (map textOf (filter isThinkingPart (partsOf c))) = []
                   then ''(no content)''
                   else concat (map textOf (filter isThinkingPart (partsOf c)))),
                 th_signature = sig\<rparr>)"
    unfolding u [symmetric] by (simp only: unified_response.select_convs)
  have one: "ur_thinking u \<noteq> None \<longleftrightarrow> list_ex hasSignature (partsOf c)"
    using findSignature_None [of "partsOf c"] unfolding thinking
    by (cases "findSignature (partsOf c)") simp_all
  have two: "transformJsonResponse defaultModel now ?data' requestedModel = ChatCompletion u"
    if nosig: "\<not> list_ex hasSignature (partsOf c)"
  proof -
    have w: "response ?data' = Some ?r'" "candidates ?r' = ?c' # others" by simp_all
    have parts: "partsOf ?c' = ?kept" by (simp add: partsOf_def)
    have same: "finishReason ?c' = finishReason c" "responseId ?r' = responseId r"
      "usageMetadata ?r' = usageMetadata r" by simp_all
    have none: "findSignature (partsOf c) = None" using nosig findSignature_None by blast
    have "\<not> list_ex hasSignature ?kept" using nosig by (auto simp: list_ex_iff)
    then have none': "findSignature ?kept = None" using findSignature_None by blast
    have idem: "filter (\<lambda>p. \<not> isThinkingPart p) ?kept = ?kept" by simp
    show ?thesis
      unfolding transformJsonResponse_unfold [OF w] parts same none' idem u [symmetric] none
      by (simp only: option.case)
  qed
  have three: "map_option th_content (ur_thinking u) = Some ''(no content)''"
    if "list_ex hasSignature (partsOf c)" "\<not> list_ex isThinkingPart (partsOf c)"
  proof -
    have "filter isThinkingPart (partsOf c) = []"
      using that(2) by (auto simp: list_ex_iff filter_empty_conv)
    moreover have "findSignature (partsOf c) \<noteq> None"
      using that(1) findSignature_None by blast
    then obtain sig where "findSignature (partsOf c) = Some sig"
      by auto
    ultimately show ?thesis unfolding thinking by simp
  qed
  show ?thesis using one two three by blast
qed

theorem thinking_iff_signature_witness:
  "transformJsonResponse ''claude-sonnet-4-5-20250514'' 1700000000000
      (wrappedReply [exThought, exText]) ''claude-opus-4-5-20251101''
     = ChatCompletion (exampleCompletion ''The answer'' None None)
   \<and> \<not> list_ex hasSignature (partsOf (exampleCandidate [exThought, exText]))
   \<and> ur_thinking (exampleCompletion ''The answer'' None None) = None
   \<and> transformJsonResponse ''claude-sonnet-4-5-20250514'' 1700000000000
        (wrappedReply [exText]) ''claude-opus-4-5-20251101''
       = ChatCompletion (exampleCompletion ''The answer'' None None)
   \<and> transformJsonResponse ''claude-sonnet-4-5-20250514'' 1700000000000
        (wrappedReply [exText, exSignature]) ''claude-opus-4-5-20251101''
       = ChatCompletion
           (exampleCompletion ''The answer'' None
              (Some \<lparr>th_content = ''(no content)'', th_signature = ''sig_abc''\<rparr>))
   \<and> list_ex hasSignature (partsOf (exampleCandidate [exText, exSignature]))
   \<and> \<not> list_ex isThinkingPart (partsOf (exampleCandidate [exText, exSignature]))
   \<and> ur_thinking
         (exampleCompletion ''The answer'' None
            (Some \<lparr>th_content = ''(no content)'', th_signature = ''sig_abc''\<rparr>)) \<noteq> None"
proof -
  let ?unsigned = "[exThought, exText]"
  let ?signed = "[exText, exSignature]"
  let ?plain = "exampleCompletion ''The answer'' None None"
  let ?marked = "exampleCompletion ''The answer'' None
                   (Some \<lparr>th_content = ''(no content)'', th_signature = ''sig_abc''\<rparr>)"
  have u1: "response (wrappedReply ?unsigned) = Some (examplePayload ?unsigned)"
    and s1: "response (wrappedReply ?signed) = Some (examplePayload ?signed)"
    by (simp_all add: wrappedReply_def)
  have u2: "candidates (examplePayload ?unsigned) = exampleCandidate ?unsigned # []"
    and s2: "candidates (examplePayload ?signed) = exampleCandidate ?signed # []"
    by (simp_all add: examplePayload_def)
  have u3: "transformJsonResponse ''claude-sonnet-4-5-20250514'' 1700000000000
      (wrappedReply ?unsigned) ''claude-opus-4-5-20251101'' = ChatCompletion ?plain"
    by code_simp
  have s3: "transformJsonResponse ''claude-sonnet-4-5-20250514'' 1700000000000
      (wrappedReply ?signed) ''claude-opus-4-5-20251101'' = ChatCompletion ?marked"
    by code_simp
  have nosig: "\<not> list_ex hasSignature (partsOf (exampleCandidate ?unsigned))"
    by code_simp
  have sig: "list_ex hasSignature (partsOf (exampleCandidate ?signed))"
    and nothought: "\<not> list_ex isThinkingPart (partsOf (exampleCandidate ?signed))"
    by code_simp+
  have removed: "(wrappedReply ?unsigned)
      \<lparr>response := Some ((examplePayload ?unsigned)
         \<lparr>candidates :=
            (exampleCandidate ?unsigned)
              \<lparr>cand_parts := Some (filter (\<lambda>p. \<not> isThinkingPart p)
                                     (partsOf (exampleCandidate ?unsigned)))\<rparr> # []\<rparr>)\<rparr>
      = wrappedReply [exText]"
    by code_simp
  note unsigned = thinking_iff_signature [OF u1 u2 u3]
  note signed = thinking_iff_signature [OF s1 s2 s3]
  have dropped: "transformJsonResponse ''claude-sonnet-4-5-20250514'' 1700000000000
        (wrappedReply [exText]) ''claude-opus-4-5-20251101'' = ChatCompletion ?plain"
    using unsigned nosig unfolding removed by blast
  have absent: "ur_thinking ?plain = None"
    using unsigned nosig by blast
  have present: "ur_thinking ?marked \<noteq> None"
    using signed sig by blast
  show ?thesis
    using u3 nosig absent dropped s3 sig nothought present by blast
qed

section \<open>Properties of the response dispatch and the event stream\<close>

text \<open>
  An error response with a JSON body (here a 401 whose body parses to an object without
  \<^verbatim>\<open>response\<close>) is handed back as the same response object, but only after
  \<^verbatim>\<open>response.json()\<close> has read its body.
\<close>

lemma json_error_body_read:
  "transformResponseOut (\<lambda>s. Some \<lparr>response = None, bare = emptyPayload\<rparr>)
     ''claude-sonnet-4-5-20250514'' 1700000000000
     \<lparr>resp_status = 401, resp_statusText = ''Unauthorized'',
      resp_headers = [(''Content-Type'', ''application/json; charset=UTF-8'')],
      resp_body = Some [''{\"error\":{\"code\":401,\"status\":\"UNAUTHENTICATED\"}}''],
      resp_bodyUsed = False\<rparr>
     \<lparr>ctx_requestModel = Some ''claude-opus-4-5-20251101'', ctx_isWebSearch = False\<rparr>
   = Inr (Relayed
            \<lparr>resp_status = 401, resp_statusText = ''Unauthorized'',
             resp_headers = [(''Content-Type'', ''application/json; charset=UTF-8'')],
             resp_body = Some [''{\"error\":{\"code\":401,\"status\":\"UNAUTHENTICATED\"}}''],
             resp_bodyUsed = True\<rparr>)"
  by code_simp

text \<open>
  C9. Every response with a status outside 2xx is stated to be relayed with its status,
  headers and body untouched. The Antigravity transformer never reads the status: a 503
  whose content type is \<^verbatim>\<open>text/event-stream\<close> goes through the stream transformation,
  which replaces the headers and, finding no \<^verbatim>\<open>data:\<close> line in the error body, emits an
  empty event stream.
\<close>

theorem error_response_rewritten:
  "\<not> responseOk
       \<lparr>resp_status = 503, resp_statusText = ''Service Unavailable'',
        resp_headers = [(''Content-Type'', ''text/event-stream''), (''Retry-After'', ''30'')],
        resp_body = Some [''{\"error\":{\"code\":503,\"status\":\"UNAVAILABLE\"}}'' @ [CHR 0x0A]],
        resp_bodyUsed = False\<rparr>
   \<and> transformResponseOut exampleParseChunk ''claude-sonnet-4-5-20250514'' 1700000000000
        \<lparr>resp_status = 503, resp_statusText = ''Service Unavailable'',
         resp_headers = [(''Content-Type'', ''text/event-stream''), (''Retry-After'', ''30'')],
         resp_body = Some [''{\"error\":{\"code\":503,\"status\":\"UNAVAILABLE\"}}'' @ [CHR 0x0A]],
         resp_bodyUsed = False\<rparr>
        \<lparr>ctx_requestModel = Some ''claude-opus-4-5-20251101'', ctx_isWebSearch = False\<rparr>
       = Inr (Rewritten 503 ''Service Unavailable''
                [(''Content-Type'', ''text/event-stream''), (''Cache-Control'', ''no-cache''),
                 (''Connection'', ''keep-alive''), (''X-Skip-Response-Transform'', ''true'')]
                (EventStream []))"
  by code_simp

lemma blockStarts_append: "blockStarts (es @ fs) = blockStarts es @ blockStarts fs"
  by (induction es rule: blockStarts.induct) simp_all

lemma balance_append:
  "balance opened (es @ fs)
   = (case balance opened es of None \<Rightarrow> None | Some opened' \<Rightarrow> balance opened' fs)"
  by (induction opened es rule: balance.induct) simp_all

lemmas stream_simps = streamInv_def openSet_def sendEvent_def Let_def blockStarts_append
  balance_append sorted_wrt_append

lemma initial_inv: "streamInv initialState"
  by (simp add: streamInv_def initialState_def openSet_def)

lemma startThinkingBlock_inv: "streamInv st \<Longrightarrow> streamInv (startThinkingBlock st)"
  by (auto simp: startThinkingBlock_def stream_simps)

lemma startThinkingBlock_started: "thinkingBlockStarted (startThinkingBlock st)"
  by (simp add: startThinkingBlock_def sendEvent_def Let_def)

lemma thinkingPart_inv: "streamInv st \<Longrightarrow> streamInv (thinkingPart st p)"
proof -
  assume "streamInv st"
  then have "streamInv (st\<lparr>hasThinkingContent := True\<rparr>)"
    by (simp add: streamInv_def openSet_def)
  then have "streamInv (startThinkingBlock (st\<lparr>hasThinkingContent := True\<rparr>))"
    by (rule startThinkingBlock_inv)
  then show ?thesis
    by (simp add: thinkingPart_def stream_simps)
qed

lemma foldl_inv:
  assumes "\<And>st x. streamInv st \<Longrightarrow> streamInv (f st x)"
  shows "streamInv st \<Longrightarrow> streamInv (foldl f st xs)"
  by (induction xs arbitrary: st) (simp_all add: assms)

lemma signatureStep_inv: "streamInv st \<Longrightarrow> streamInv (signatureStep parts st)"
proof -
  assume inv: "streamInv st"
  show ?thesis
  proof (cases "findSignature parts")
    case None
    with inv show ?thesis by (simp add: signatureStep_def)
  next
    case (Some sig)
    show ?thesis
    proof (cases "signatureSent st")
      case True
      with inv Some show ?thesis by (simp add: signatureStep_def)
    next
      case False
      define st1 where "st1 = startThinkingBlock st"
      have i1: "streamInv st1" and s1: "thinkingBlockStarted st1"
        using inv by (simp_all add: st1_def startThinkingBlock_inv startThinkingBlock_started)
      have "signatureStep parts st =
         (sendEvent (ContentBlockStop (thinkingBlockIndex st1))
            (sendEvent (ContentBlockDelta (thinkingBlockIndex st1) (SignatureDelta sig)) st1))
         \<lparr>signatureSent := True, thinkingBlockStarted := False\<rparr>"
        using Some False by (simp add: signatureStep_def st1_def Let_def sendEvent_def)
      moreover have "streamInv \<dots>"
        using i1 s1 by (auto simp: stream_simps)
      ultimately show ?thesis by simp
    qed
  qed
qed

lemma textPart_inv: "streamInv st \<Longrightarrow> streamInv (textPart st p)"
  by (auto simp: textPart_def stream_simps)

lemma toolCallPart_inv: "streamInv st \<Longrightarrow> streamInv (toolCallPart st p)"
  by (auto simp: toolCallPart_def stream_simps split: option.splits)

lemma groundingStep_inv: "streamInv st \<Longrightarrow> streamInv (groundingStep c st)"
  by (auto simp: groundingStep_def stream_simps split: option.splits)

lemma finishStep_inv: "streamInv st \<Longrightarrow> streamInv (finishStep c st)"
  by (auto simp: finishStep_def closeMessage_def stream_simps)

lemma handleChunk_inv: "streamInv st \<Longrightarrow> streamInv (handleChunk model st chunk)"
proof -
  assume inv: "streamInv st"
  define responseData where
    "responseData = (case response chunk of None \<Rightarrow> bare chunk | Some r \<Rightarrow> r)"
  show ?thesis
  proof (cases "candidates responseData")
    case Nil
    with inv show ?thesis by (simp add: handleChunk_def responseData_def)
  next
    case (Cons candidate others)
    define st1 where "st1 = (case usageMetadata responseData of
                               None \<Rightarrow> st
                             | Some u \<Rightarrow> st\<lparr>lastUsageMetadata := Some u\<rparr>)"
    define st2 where "st2 = (if messageStartSent st1 then st1
                             else (sendEvent (MessageStart (idOr (responseId responseData) ''msg_'')
                                                model) st1)
                                    \<lparr>messageStartSent := True\<rparr>)"
    have i1: "streamInv st1"
      using inv by (auto simp: st1_def streamInv_def openSet_def split: option.splits)
    have i2: "streamInv st2"
      using i1 by (auto simp: st2_def stream_simps)
    have "handleChunk model st chunk =
        finishStep candidate (groundingStep candidate
          (foldl toolCallPart
             (foldl textPart
                (signatureStep (partsOf candidate)
                   (foldl thinkingPart st2 (filter isThinkingPart (partsOf candidate))))
                (filter isTextPart (partsOf candidate)))
             (filter hasFunctionCall (partsOf candidate))))"
      using Cons
      by (simp add: handleChunk_def responseData_def [symmetric] st1_def st2_def Let_def)
    then show ?thesis
      using i2
      by (simp add: finishStep_inv groundingStep_inv signatureStep_inv
          foldl_inv [of toolCallPart] foldl_inv [of textPart] foldl_inv [of thinkingPart]
          toolCallPart_inv textPart_inv thinkingPart_inv)
  qed
qed

lemma handleLine_inv: "streamInv st \<Longrightarrow> streamInv (handleLine parse model st line)"
  by (simp add: handleLine_def handleChunk_inv split: option.splits)

lemma readLoop_inv:
  "streamInv st \<Longrightarrow> streamInv (readLoop parse model st buffer chunks)"
proof (induction chunks arbitrary: st buffer)
  case Nil
  then show ?case by simp
next
  case (Cons v vs)
  have "streamInv (foldl (handleLine parse model) st (butlast (split (CHR 0x0A) (buffer @ v))))"
    using Cons.prems by (rule foldl_inv [rotated]) (rule handleLine_inv)
  then show ?case
    by (simp add: Let_def Cons.IH)
qed

lemma endOfStream_closed:
  assumes "streamInv st"
  shows "balance {} (enqueued (endOfStream st)) = Some {}
         \<and> sorted_wrt (<) (blockStarts (enqueued (endOfStream st)))
         \<and> length (filter isMessageStart (enqueued (endOfStream st))) \<le> 1"
  using assms
  by (auto simp: endOfStream_def closeMessage_def stream_simps)

text \<open>
  What does hold of every stream, however its body is cut into chunks and whatever its
  lines parse to: the block indices are started in strictly increasing order, every
  started block is stopped exactly once (a stop always closes an open block, and no block
  is open at the end), and \<^verbatim>\<open>message_start\<close> is emitted at most once.
\<close>

lemma stream_blocks_wellformed:
  "sorted_wrt (<) (blockStarts (streamEvents parse defaultModel requestedModel chunks))
   \<and> balance {} (streamEvents parse defaultModel requestedModel chunks) = Some {}
   \<and> length (filter isMessageStart (streamEvents parse defaultModel requestedModel chunks))
       \<le> 1"
  using endOfStream_closed [OF readLoop_inv [OF initial_inv]]
  by (simp add: streamEvents_def)

text \<open>
  C1. \<^verbatim>\<open>message_stop\<close> is stated to occur at most once per response. A stream whose
  only line carries a text part and a finish reason is closed by the finish-reason step
  and then again when the read loop ends: the terminal pair is emitted twice.
\<close>

theorem message_stop_emitted_twice:
  "streamEvents exampleParseChunk ''claude-sonnet-4-5-20250514'' ''claude-opus-4-5-20251101''
     [''data: '' @ exampleChunkText @ [CHR 0x0A]]
   = [MessageStart (Generated ''msg_'') ''claude-opus-4-5-20251101'',
      ContentBlockStart 0 TextBlock,
      ContentBlockDelta 0 (TextDelta ''Hello!''),
      ContentBlockStop 0,
      MessageDelta (Some 100) 50,
      MessageStop,
      MessageDelta (Some 100) 50,
      MessageStop]"
  by code_simp

end
